theory Spec2Isabelle
  imports Main "HOL-Library.Word" "HOL-Library.Multiset" "HOL-Library.Log_Nat"
    "HOL-Library.AList"
begin

section \<open>Machine numbers\<close>

text \<open>
  A finite \<open>float64\<close> is the rational number it stands for. Every arithmetic operation of
  the source is the exact operation followed by \<open>fl\<close>, rounding to the nearest number
  with a 53-bit significand, ties to the even significand, as IEEE 754 binary64 does in
  its normal range. Overflow to infinity, subnormals and NaN are outside the model: no
  frame rate or frame count of the translator comes near them.
\<close>

type_synonym float64 = rat

definition pow2 :: "int \<Rightarrow> rat" where
  "pow2 e = (if 0 \<le> e then 2 ^ nat e else 1 / 2 ^ nat (- e))"

text \<open>The exponent \<open>k\<close> with \<open>2^k \<le> |x| < 2^(k+1)\<close>, for \<open>x \<noteq> 0\<close>.\<close>

definition ilog2 :: "rat \<Rightarrow> int" where
  "ilog2 x =
     (let (p, q) = quotient_of \<bar>x\<bar>;
          k = bitlen p - bitlen q
      in if pow2 k \<le> \<bar>x\<bar> then k else k - 1)"

definition roundHalfEven :: "rat \<Rightarrow> int" where
  "roundHalfEven m =
     (let f = \<lfloor>m\<rfloor>; r = m - of_int f
      in if r < 1 / 2 then f
         else if 1 / 2 < r then f + 1
         else if even f then f else f + 1)"

definition fl :: "rat \<Rightarrow> float64" where
  "fl x =
     (if x = 0 then 0
      else let e = ilog2 x - 52
           in of_int (roundHalfEven (x / pow2 e)) * pow2 e)"

definition fmul :: "float64 \<Rightarrow> float64 \<Rightarrow> float64" where
  "fmul x y = fl (x * y)"

definition fdiv :: "float64 \<Rightarrow> float64 \<Rightarrow> float64" where
  "fdiv x y = fl (x / y)"

definition fadd :: "float64 \<Rightarrow> float64 \<Rightarrow> float64" where
  "fadd x y = fl (x + y)"

definition fsub :: "float64 \<Rightarrow> float64 \<Rightarrow> float64" where
  "fsub x y = fl (x - y)"

text \<open>
  Go's conversion of a float to an integer type drops the fraction (rounds toward zero).
  \<open>int(f)\<close> is modelled without a bound; \<open>int64(f)\<close> lands in a 64-bit word, and a
  value beyond the word (where Go leaves the result to the platform) wraps here.
\<close>

definition truncToInt :: "float64 \<Rightarrow> int" where
  "truncToInt f = (if 0 \<le> f then \<lfloor>f\<rfloor> else \<lceil>f\<rceil>)"

definition toInt64 :: "float64 \<Rightarrow> 64 word" where
  "toInt64 f = word_of_int (truncToInt f)"

text \<open>\<open>float64(n)\<close> for an \<open>int\<close> and for an \<open>int64\<close> (read as signed).\<close>

definition ofInt :: "int \<Rightarrow> float64" where
  "ofInt n = fl (of_int n)"

definition ofInt64 :: "64 word \<Rightarrow> float64" where
  "ofInt64 w = fl (of_int (sint w))"

section \<open>Frame rates\<close>

record Rate =
  Timebase :: int
  NTSC :: bool

text \<open>Decoder, \<open>rateToFrameRate\<close>: the effective frames per second of a rate.\<close>

definition rateToFrameRate :: "Rate \<Rightarrow> float64" where
  "rateToFrameRate rate =
     (let frameRate = ofInt (Timebase rate)
      in if NTSC rate then fdiv (fmul frameRate 1000) 1001 else frameRate)"

text \<open>Encoder, \<open>abs\<close> and \<open>isNTSCRate\<close>. The decimal literals denote their nearest float.\<close>

definition abs_f :: "float64 \<Rightarrow> float64" where
  "abs_f x = (if x < 0 then - x else x)"

definition ntscRates :: "float64 list" where
  "ntscRates =
     [fl (23976023976023978 / 10 ^ 15),
      fl (2997002997002997 / 10 ^ 14),
      fl (5994005994005994 / 10 ^ 14)]"

fun anyNTSC :: "float64 \<Rightarrow> float64 list \<Rightarrow> bool" where
  "anyNTSC rate [] = False"
| "anyNTSC rate (ntsc # rest) =
     (if abs_f (fsub rate ntsc) < fl (1 / 100) then True else anyNTSC rate rest)"

definition isNTSCRate :: "float64 \<Rightarrow> bool" where
  "isNTSCRate rate = anyNTSC rate ntscRates"

text \<open>
  Encoder, the head of \<open>convertTracks\<close>: the rate written into the sequence and into
  every item, from the working frame rate and its classification.
\<close>

definition encoderRate :: "float64 \<Rightarrow> bool \<Rightarrow> Rate" where
  "encoderRate frameRate isNTSC =
     (let timebase = (if isNTSC then truncToInt (fadd (fdiv (fmul frameRate 1001) 1000) (1 / 2))
                      else truncToInt frameRate)
      in \<lparr>Timebase = timebase, NTSC = isNTSC\<rparr>)"

text \<open>The canonical rates 23.976, 24, 25, 29.97, 30, 50, 59.94 and 60 as the schema writes them.\<close>

definition canonicalRates :: "Rate list" where
  "canonicalRates =
     [\<lparr>Timebase = 24, NTSC = True\<rparr>, \<lparr>Timebase = 24, NTSC = False\<rparr>,
      \<lparr>Timebase = 25, NTSC = False\<rparr>, \<lparr>Timebase = 30, NTSC = True\<rparr>,
      \<lparr>Timebase = 30, NTSC = False\<rparr>, \<lparr>Timebase = 50, NTSC = False\<rparr>,
      \<lparr>Timebase = 60, NTSC = True\<rparr>, \<lparr>Timebase = 60, NTSC = False\<rparr>]"

definition reencodeRate :: "Rate \<Rightarrow> Rate" where
  "reencodeRate rate =
     (let fps = rateToFrameRate rate in encoderRate fps (isNTSCRate fps))"

section \<open>The interchange schema\<close>

text \<open>
  The structs of the schema, with the fields the translator reads or writes. The fields
  that only the XML codec touches (element names, timecode, lock, labels, comments, links,
  source track, file media, anamorphic, alpha type) are left out. An \<open>int64\<close> is a 64-bit
  word, read signed; a Go \<open>int\<close> is an integer; a pointer field is an option. A nested
  sequence inside a clip item is never descended into: the decoder tests its presence
  and reads its name, which is what \<open>NestedSequence\<close> keeps of it.
\<close>

record Color =
  Red :: int
  Green :: int
  Blue :: int
  Alpha :: int

record Marker =
  m_Name :: string
  m_Comment :: string
  m_In :: "64 word"
  m_Out :: "64 word"
  m_Color :: "Color option"

record Parameter =
  ParameterID :: string
  p_Name :: string
  p_Value :: string
  ValueID :: string
  ValueMin :: "float64 option"
  ValueMax :: "float64 option"
  ValueList :: string

record Effect =
  e_Name :: string
  EffectID :: string
  EffectType :: string
  MediaType :: string
  EffectCategory :: string
  e_Duration :: "64 word"
  StartRatio :: "float64 option"
  EndRatio :: "float64 option"
  Reverse :: "bool option"
  e_Parameter :: "Parameter list"

record Filter =
  f_Enabled :: "bool option"
  f_Start :: "64 word"
  f_End :: "64 word"
  f_Effect :: "Effect option"

record File =
  file_ID :: string
  file_Name :: string
  PathURL :: string
  file_Rate :: Rate
  file_Duration :: "64 word"

record NestedSequence =
  ns_Name :: string

record ClipItem =
  ci_ID :: string
  ci_Name :: string
  ci_Enabled :: "bool option"
  ci_Duration :: "64 word"
  ci_Rate :: Rate
  ci_Start :: "64 word"
  ci_End :: "64 word"
  ci_In :: "64 word"
  ci_Out :: "64 word"
  ci_File :: "File option"
  ci_Sequence :: "NestedSequence option"
  ci_Filter :: "Filter list"
  ci_Effect :: "Effect list"
  ci_Marker :: "Marker list"

record TransitionItem =
  ti_Name :: string
  ti_Rate :: Rate
  ti_Start :: "64 word"
  ti_End :: "64 word"
  ti_Alignment :: string
  ti_Effect :: "Effect option"

record GeneratorItem =
  gi_Name :: string
  gi_Duration :: "64 word"
  gi_Rate :: Rate
  gi_Start :: "64 word"
  gi_End :: "64 word"
  gi_In :: "64 word"
  gi_Out :: "64 word"
  gi_Enabled :: "bool option"
  gi_Effect :: "Effect option"
  gi_Filter :: "Filter list"
  gi_Marker :: "Marker list"

record Track =
  t_Enabled :: "bool option"
  t_ClipItem :: "ClipItem list"
  t_TransitionItem :: "TransitionItem list"
  t_GeneratorItem :: "GeneratorItem list"

record Video =
  v_Track :: "Track list"

record Audio =
  a_Track :: "Track list"

record Media =
  media_Video :: "Video option"
  media_Audio :: "Audio option"

record Sequence =
  seq_Name :: string
  seq_Duration :: "64 word"
  seq_Rate :: Rate
  seq_Media :: Media

record XMEML =
  Version :: string
  x_Sequence :: "Sequence list"

section \<open>The timeline model\<close>

text \<open>
  The timeline library is a collaborator of the translator, not part of it. The types
  below hold what the translator stores in and reads from the library's objects; the
  few library operations it calls are modelled from their documented behaviour. A
  metadata dictionary is a list of key and value pairs, read with \<open>map_of\<close> and written
  with \<open>AList.update\<close>; a nil dictionary reads like the empty one in Go, so both are \<open>[]\<close>.
\<close>

datatype error =
    Err string
  | Wrap string error

record RationalTime =
  rt_value :: float64
  rt_rate :: float64

record TimeRange =
  range_start :: RationalTime
  range_duration :: RationalTime

definition NewRationalTime :: "float64 \<Rightarrow> float64 \<Rightarrow> RationalTime" where
  "NewRationalTime v r = \<lparr>rt_value = v, rt_rate = r\<rparr>"

definition NewTimeRange :: "RationalTime \<Rightarrow> RationalTime \<Rightarrow> TimeRange" where
  "NewTimeRange s d = \<lparr>range_start = s, range_duration = d\<rparr>"

text \<open>The dynamic values the translator stores in metadata, and any other value.\<close>

datatype AnyValue =
    AnyBool bool
  | AnyString string
  | AnyInt64 "64 word"
  | AnyFloat64 float64
  | AnyDict "(string \<times> AnyValue) list"
  | AnyDictList "(string \<times> AnyValue) list list"
  | AnyIntMap "(string \<times> int) list"
  | AnyOther

type_synonym AnyDictionary = "(string \<times> AnyValue) list"

text \<open>
  The type assertions \<open>v, ok := m[key].(T)\<close> on the result of a lookup: \<open>Some v\<close>
  when the key is present with a value of dynamic type \<open>T\<close>, \<open>None\<close> when \<open>ok\<close> is false.
\<close>

fun asBool :: "AnyValue option \<Rightarrow> bool option" where
  "asBool (Some (AnyBool v)) = Some v"
| "asBool other = None"

fun asString :: "AnyValue option \<Rightarrow> string option" where
  "asString (Some (AnyString v)) = Some v"
| "asString other = None"

fun asInt64 :: "AnyValue option \<Rightarrow> 64 word option" where
  "asInt64 (Some (AnyInt64 v)) = Some v"
| "asInt64 other = None"

fun asFloat64 :: "AnyValue option \<Rightarrow> float64 option" where
  "asFloat64 (Some (AnyFloat64 v)) = Some v"
| "asFloat64 other = None"

fun asDict :: "AnyValue option \<Rightarrow> AnyDictionary option" where
  "asDict (Some (AnyDict v)) = Some v"
| "asDict other = None"

fun asDictList :: "AnyValue option \<Rightarrow> AnyDictionary list option" where
  "asDictList (Some (AnyDictList v)) = Some v"
| "asDictList other = None"

fun asIntMap :: "AnyValue option \<Rightarrow> (string \<times> int) list option" where
  "asIntMap (Some (AnyIntMap v)) = Some v"
| "asIntMap other = None"

datatype MediaReference =
    ExternalReference (ref_name: string) (target_url: string)
      (ref_available_range: "TimeRange option")
  | MissingReference (ref_name: string) (ref_available_range: "TimeRange option")
  | GeneratorReference (ref_name: string) (generator_kind: string)
      (ref_available_range: "TimeRange option")
  | ImageSequenceReference (ref_name: string) (target_url_base: string)
      (name_prefix: string) (name_suffix: string) (start_frame: int) (frame_step: int)
      (sequence_rate: float64) (frame_zero_padding: int)
      (ref_available_range: "TimeRange option") (ref_metadata: AnyDictionary)
      (missing_frame_policy: string)

record otio_Marker =
  marker_name :: string
  marked_range :: TimeRange
  marker_color :: string
  marker_comment :: string
  marker_metadata :: AnyDictionary

record otio_Clip =
  clip_name :: string
  media_reference :: "MediaReference option"
  source_range :: "TimeRange option"
  clip_metadata :: AnyDictionary
  clip_markers :: "otio_Marker list"
  clip_enabled :: bool

record otio_Transition =
  transition_name :: string
  transition_type :: string
  in_offset :: RationalTime
  out_offset :: RationalTime
  transition_metadata :: AnyDictionary

record otio_Gap =
  gap_name :: string
  gap_source_range :: "TimeRange option"

text \<open>A child of a track; \<open>OtherChild\<close> is any kind besides clip, transition and gap.\<close>

datatype Composable =
    ClipChild otio_Clip
  | TransitionChild otio_Transition
  | GapChild otio_Gap
  | OtherChild string

text \<open>\<open>Name()\<close> of a child.\<close>

fun composableName :: "Composable \<Rightarrow> string" where
  "composableName (ClipChild c) = clip_name c"
| "composableName (TransitionChild t) = transition_name t"
| "composableName (GapChild g) = gap_name g"
| "composableName (OtherChild n) = n"

record otio_Track =
  track_name :: string
  track_kind :: string
  track_enabled :: bool
  track_children :: "Composable list"

text \<open>A child of the timeline's stack: a track, or something else placed there.\<close>

datatype StackChild =
    TrackChild otio_Track
  | ItemChild Composable

record otio_Timeline =
  timeline_name :: string
  timeline_tracks :: "StackChild list"

subsection \<open>Library operations the translator calls\<close>

text \<open>
  \<open>AvailableRange\<close> of a clip is the available range of its media reference and fails
  when there is no reference or the reference has no range. \<open>Duration\<close> of a clip or a
  gap is the duration of its source range when it has one, of its available range
  otherwise (a gap has none of its own).
\<close>

definition DurationUnavailable :: error where
  "DurationUnavailable = Err ''cannot compute available range''"

definition Clip_AvailableRange :: "otio_Clip \<Rightarrow> error + TimeRange" where
  "Clip_AvailableRange clip =
     (case media_reference clip of
        None \<Rightarrow> Inl DurationUnavailable
      | Some ref \<Rightarrow>
          (case ref_available_range ref of
             None \<Rightarrow> Inl DurationUnavailable
           | Some ar \<Rightarrow> Inr ar))"

definition Clip_Duration :: "otio_Clip \<Rightarrow> error + RationalTime" where
  "Clip_Duration clip =
     (case source_range clip of
        Some sr \<Rightarrow> Inr (range_duration sr)
      | None \<Rightarrow>
          (case Clip_AvailableRange clip of
             Inl err \<Rightarrow> Inl err
           | Inr ar \<Rightarrow> Inr (range_duration ar)))"

definition Gap_Duration :: "otio_Gap \<Rightarrow> error + RationalTime" where
  "Gap_Duration gap =
     (case gap_source_range gap of
        Some sr \<Rightarrow> Inr (range_duration sr)
      | None \<Rightarrow> Inl DurationUnavailable)"

text \<open>
  \<open>RationalTime.Add\<close>: the sum at the larger of the two rates, the other time rescaled
  to it (a time already at that rate is taken as it is).
\<close>

definition valueRescaledTo :: "RationalTime \<Rightarrow> float64 \<Rightarrow> float64" where
  "valueRescaledTo t newRate =
     (if newRate = rt_rate t then rt_value t
      else fdiv (fmul (rt_value t) newRate) (rt_rate t))"

definition RationalTime_Add :: "RationalTime \<Rightarrow> RationalTime \<Rightarrow> RationalTime" where
  "RationalTime_Add a b =
     (if rt_rate a < rt_rate b
      then \<lparr>rt_value = fadd (valueRescaledTo a (rt_rate b)) (rt_value b), rt_rate = rt_rate b\<rparr>
      else \<lparr>rt_value = fadd (rt_value a) (valueRescaledTo b (rt_rate a)), rt_rate = rt_rate a\<rparr>)"

text \<open>
  \<open>AppendChild\<close> rejects a child that already has a parent. Every child the decoder
  appends was built a moment before, so the call succeeds; its error branch is kept in
  the callers as the source has it.
\<close>

definition Track_AppendChild :: "otio_Track \<Rightarrow> Composable \<Rightarrow> error + otio_Track" where
  "Track_AppendChild track child =
     Inr (track\<lparr>track_children := track_children track @ [child]\<rparr>)"

definition Stack_AppendChild :: "otio_Timeline \<Rightarrow> otio_Track \<Rightarrow> error + otio_Timeline" where
  "Stack_AppendChild timeline track =
     Inr (timeline\<lparr>timeline_tracks := timeline_tracks timeline @ [TrackChild track]\<rparr>)"

definition TrackKindVideo :: string where
  "TrackKindVideo = ''Video''"

definition TrackKindAudio :: string where
  "TrackKindAudio = ''Audio''"

definition MarkerColorGreen :: string where
  "MarkerColorGreen = ''GREEN''"

definition TransitionTypeCustom :: string where
  "TransitionTypeCustom = ''Custom_Transition''"

definition MissingFramePolicyError :: string where
  "MissingFramePolicyError = ''error''"

fun tracksOfKind :: "string \<Rightarrow> StackChild list \<Rightarrow> otio_Track list" where
  "tracksOfKind kind [] = []"
| "tracksOfKind kind (TrackChild track # rest) =
     (if track_kind track = kind then track # tracksOfKind kind rest
      else tracksOfKind kind rest)"
| "tracksOfKind kind (ItemChild other # rest) = tracksOfKind kind rest"

definition VideoTracks :: "otio_Timeline \<Rightarrow> otio_Track list" where
  "VideoTracks timeline = tracksOfKind TrackKindVideo (timeline_tracks timeline)"

definition AudioTracks :: "otio_Timeline \<Rightarrow> otio_Track list" where
  "AudioTracks timeline = tracksOfKind TrackKindAudio (timeline_tracks timeline)"

text \<open>Decimal digits of a number, for \<open>%d\<close> in a format string.\<close>

fun showNat :: "nat \<Rightarrow> string" where
  "showNat n =
     (if n < 10 then [char_of (48 + n)]
      else showNat (n div 10) @ [char_of (48 + n mod 10)])"

declare showNat.simps [simp del]

section \<open>The decoder\<close>

subsection \<open>Effects, filters and parameters lifted into metadata\<close>

definition parameterToMetadata :: "Parameter \<Rightarrow> AnyDictionary" where
  "parameterToMetadata p =
     (let metadata = [];
          metadata = (if ParameterID p \<noteq> [] then AList.update ''parameterid'' (AnyString (ParameterID p)) metadata else metadata);
          metadata = (if p_Name p \<noteq> [] then AList.update ''name'' (AnyString (p_Name p)) metadata else metadata);
          metadata = (if p_Value p \<noteq> [] then AList.update ''value'' (AnyString (p_Value p)) metadata else metadata);
          metadata = (if ValueID p \<noteq> [] then AList.update ''valueid'' (AnyString (ValueID p)) metadata else metadata);
          metadata = (case ValueMin p of Some v \<Rightarrow> AList.update ''valuemin'' (AnyFloat64 v) metadata | None \<Rightarrow> metadata);
          metadata = (case ValueMax p of Some v \<Rightarrow> AList.update ''valuemax'' (AnyFloat64 v) metadata | None \<Rightarrow> metadata);
          metadata = (if ValueList p \<noteq> [] then AList.update ''valuelist'' (AnyString (ValueList p)) metadata else metadata)
      in metadata)"

definition effectToMetadata :: "Effect \<Rightarrow> AnyDictionary" where
  "effectToMetadata effect =
     (let metadata = [];
          metadata = AList.update ''name'' (AnyString (e_Name effect)) metadata;
          metadata = AList.update ''effectid'' (AnyString (EffectID effect)) metadata;
          metadata = AList.update ''effecttype'' (AnyString (EffectType effect)) metadata;
          metadata = AList.update ''mediatype'' (AnyString (MediaType effect)) metadata;
          metadata = (if EffectCategory effect \<noteq> [] then AList.update ''effectcategory'' (AnyString (EffectCategory effect)) metadata else metadata);
          metadata = (if 0 <s e_Duration effect then AList.update ''duration'' (AnyInt64 (e_Duration effect)) metadata else metadata);
          metadata = (case StartRatio effect of Some v \<Rightarrow> AList.update ''startratio'' (AnyFloat64 v) metadata | None \<Rightarrow> metadata);
          metadata = (case EndRatio effect of Some v \<Rightarrow> AList.update ''endratio'' (AnyFloat64 v) metadata | None \<Rightarrow> metadata);
          metadata = (case Reverse effect of Some v \<Rightarrow> AList.update ''reverse'' (AnyBool v) metadata | None \<Rightarrow> metadata);
          metadata = (if e_Parameter effect \<noteq> [] then AList.update ''parameters'' (AnyDictList (map parameterToMetadata (e_Parameter effect))) metadata else metadata)
      in metadata)"

definition effectsToMetadata :: "Effect list \<Rightarrow> AnyDictionary list" where
  "effectsToMetadata effects = map effectToMetadata effects"

definition filterToMetadata :: "Filter \<Rightarrow> AnyDictionary" where
  "filterToMetadata f =
     (let filterMeta = [];
          filterMeta = (case f_Enabled f of Some v \<Rightarrow> AList.update ''enabled'' (AnyBool v) filterMeta | None \<Rightarrow> filterMeta);
          filterMeta = (if 0 <s f_Start f then AList.update ''start'' (AnyInt64 (f_Start f)) filterMeta else filterMeta);
          filterMeta = (if 0 <s f_End f then AList.update ''end'' (AnyInt64 (f_End f)) filterMeta else filterMeta);
          filterMeta = (case f_Effect f of Some e \<Rightarrow> AList.update ''effect'' (AnyDict (effectToMetadata e)) filterMeta | None \<Rightarrow> filterMeta)
      in filterMeta)"

definition filtersToMetadata :: "Filter list \<Rightarrow> AnyDictionary list" where
  "filtersToMetadata filters = map filterToMetadata filters"

subsection \<open>Markers and media references\<close>

definition Decoder_convertMarker :: "Marker \<Rightarrow> float64 \<Rightarrow> otio_Marker" where
  "Decoder_convertMarker m frameRate =
     (let markedRange = NewTimeRange
            (NewRationalTime (ofInt64 (m_In m)) frameRate)
            (NewRationalTime (ofInt64 (m_Out m - m_In m)) frameRate);
          metadata = [];
          metadata = (if m_Comment m \<noteq> [] then AList.update ''comment'' (AnyString (m_Comment m)) metadata else metadata);
          metadata = (case m_Color m of
                        Some c \<Rightarrow> AList.update ''fcp7xml_color''
                          (AnyIntMap [(''red'', Red c), (''green'', Green c),
                                      (''blue'', Blue c), (''alpha'', Alpha c)]) metadata
                      | None \<Rightarrow> metadata);
          markerColor = MarkerColorGreen;
          comment = m_Comment m
      in \<lparr>marker_name = m_Name m, marked_range = markedRange, marker_color = markerColor,
          marker_comment = comment, marker_metadata = metadata\<rparr>)"

text \<open>
  The two scans of \<open>createMediaReference\<close> over the bytes of the file name: a run of
  four hashes starting at some \<open>i < len - 3\<close>, or (for names longer than four bytes) a
  percent sign at some \<open>i < len - 4\<close> followed by a digit, with a \<open>d\<close> three or four
  bytes after the percent sign.
\<close>

definition hasHashPattern :: "string \<Rightarrow> bool" where
  "hasHashPattern name =
     list_ex (\<lambda>i. take 4 (drop i name) = ''####'') [0 ..< length name - 3]"

definition hasPrintfPattern :: "string \<Rightarrow> bool" where
  "hasPrintfPattern name =
     list_ex (\<lambda>i. name ! i = CHR ''%''
                 \<and> of_char (CHR ''0'') \<le> (of_char (name ! (i + 1)) :: nat)
                 \<and> (of_char (name ! (i + 1)) :: nat) \<le> of_char (CHR ''9'')
                 \<and> (name ! (i + 3) = CHR ''d'' \<or> name ! (i + 4) = CHR ''d''))
       [0 ..< length name - 4]"

definition Decoder_createMediaReference :: "File \<Rightarrow> float64 \<Rightarrow> MediaReference" where
  "Decoder_createMediaReference file frameRate =
     (let availableRange = NewTimeRange
            (NewRationalTime 0 frameRate)
            (NewRationalTime (ofInt64 (file_Duration file)) frameRate);
          name = file_Name file;
          pathURL = PathURL file;
          isImageSequence =
            (if 0 < length name
             then (if hasHashPattern name then True
                   else if 4 < length name then hasPrintfPattern name else False)
             else False)
      in if isImageSequence
         then (let metadata = AList.update ''fcp7xml_file_id'' (AnyString (file_ID file)) [];
                   namePrefix = [];
                   nameSuffix = [];
                   startFrame = 0;
                   frameZeroPadding = 4
               in ImageSequenceReference name pathURL namePrefix nameSuffix startFrame 1
                    frameRate frameZeroPadding (Some availableRange) metadata
                    MissingFramePolicyError)
         else ExternalReference name pathURL (Some availableRange))"

subsection \<open>Clip items, transition items and generator items\<close>

text \<open>
  The three converters return a value and an error in the source; none of them has a
  path that returns an error, so each result below is an \<open>Inr\<close>.
\<close>

definition Decoder_convertClipItem :: "ClipItem \<Rightarrow> Rate \<Rightarrow> error + Composable" where
  "Decoder_convertClipItem item sequenceRate =
     (let rate = ci_Rate item;
          frameRate = ofInt (Timebase rate);
          frameRate = (if NTSC rate then fdiv (fmul frameRate 1000) 1001 else frameRate)
      in case ci_Sequence item of
           Some nested \<Rightarrow>
             (let sourceStart = NewRationalTime (ofInt64 (ci_In item)) frameRate;
                  sourceDuration = NewRationalTime (ofInt64 (ci_Out item - ci_In item)) frameRate;
                  sourceRange = NewTimeRange sourceStart sourceDuration;
                  metadata = [];
                  metadata = AList.update ''fcp7xml_nested_sequence'' (AnyBool True) metadata;
                  metadata = AList.update ''fcp7xml_sequence_name'' (AnyString (ns_Name nested)) metadata
              in Inr (ClipChild
                   \<lparr>clip_name = ci_Name item,
                    media_reference = Some (MissingReference [] None),
                    source_range = Some sourceRange,
                    clip_metadata = metadata,
                    clip_markers = [],
                    clip_enabled = True\<rparr>))
         | None \<Rightarrow>
             (let sourceStart = NewRationalTime (ofInt64 (ci_In item)) frameRate;
                  sourceDuration = NewRationalTime (ofInt64 (ci_Out item - ci_In item)) frameRate;
                  sourceRange = NewTimeRange sourceStart sourceDuration;
                  mediaRef =
                    (case ci_File item of
                       Some file \<Rightarrow>
                         (if PathURL file \<noteq> [] then Decoder_createMediaReference file frameRate
                          else MissingReference [] None)
                     | None \<Rightarrow> MissingReference [] None);
                  metadata = [];
                  metadata = (if ci_ID item \<noteq> [] then AList.update ''fcp7xml_id'' (AnyString (ci_ID item)) metadata else metadata);
                  metadata = (if 0 < length (ci_Effect item) then AList.update ''fcp7xml_effects'' (AnyDictList (effectsToMetadata (ci_Effect item))) metadata else metadata);
                  metadata = (if 0 < length (ci_Filter item) then AList.update ''fcp7xml_filters'' (AnyDictList (filtersToMetadata (ci_Filter item))) metadata else metadata);
                  markers = map (\<lambda>m. Decoder_convertMarker m frameRate) (ci_Marker item);
                  clip = \<lparr>clip_name = ci_Name item,
                          media_reference = Some mediaRef,
                          source_range = Some sourceRange,
                          clip_metadata = metadata,
                          clip_markers = markers,
                          clip_enabled = True\<rparr>;
                  clip = (if ci_Enabled item = Some False then clip\<lparr>clip_enabled := False\<rparr> else clip)
              in Inr (ClipChild clip)))"

definition Decoder_convertTransition :: "TransitionItem \<Rightarrow> Rate \<Rightarrow> error + Composable" where
  "Decoder_convertTransition item sequenceRate =
     (let frameRate = rateToFrameRate (ti_Rate item);
          metadata = [];
          metadata = AList.update ''fcp7xml_alignment'' (AnyString (ti_Alignment item)) metadata;
          metadata = (case ti_Effect item of
                        Some e \<Rightarrow> AList.update ''fcp7xml_effect'' (AnyDict (effectToMetadata e)) metadata
                      | None \<Rightarrow> metadata);
          halfDuration = NewRationalTime (fdiv (ofInt64 (ti_End item - ti_Start item)) 2) frameRate
      in Inr (TransitionChild
           \<lparr>transition_name = ti_Name item,
            transition_type = TransitionTypeCustom,
            in_offset = halfDuration,
            out_offset = halfDuration,
            transition_metadata = metadata\<rparr>))"

definition Decoder_convertGenerator :: "GeneratorItem \<Rightarrow> Rate \<Rightarrow> error + Composable" where
  "Decoder_convertGenerator item sequenceRate =
     (let frameRate = rateToFrameRate (gi_Rate item);
          sourceStart = NewRationalTime (ofInt64 (gi_In item)) frameRate;
          sourceDuration = NewRationalTime (ofInt64 (gi_Duration item)) frameRate;
          sourceRange = NewTimeRange sourceStart sourceDuration;
          metadata = [];
          metadata = AList.update ''fcp7xml_generator'' (AnyBool True) metadata;
          metadata = AList.update ''fcp7xml_generator_name'' (AnyString (gi_Name item)) metadata;
          metadata = (case gi_Effect item of
                        Some e \<Rightarrow> AList.update ''fcp7xml_effect'' (AnyDict (effectToMetadata e)) metadata
                      | None \<Rightarrow> metadata);
          metadata = (if 0 < length (gi_Filter item) then AList.update ''fcp7xml_filters'' (AnyDictList (filtersToMetadata (gi_Filter item))) metadata else metadata);
          markers = map (\<lambda>m. Decoder_convertMarker m frameRate) (gi_Marker item);
          mediaRef = GeneratorReference (gi_Name item) (gi_Name item) None;
          clip = \<lparr>clip_name = gi_Name item,
                  media_reference = Some mediaRef,
                  source_range = Some sourceRange,
                  clip_metadata = metadata,
                  clip_markers = markers,
                  clip_enabled = True\<rparr>;
          clip = (if gi_Enabled item = Some False then clip\<lparr>clip_enabled := False\<rparr> else clip)
      in Inr (ClipChild clip))"

subsection \<open>Tracks: collecting the items and ordering them by start\<close>

text \<open>
  The source's \<open>trackItem\<close> carries the start, a tag string and three pointers of which
  the one named by the tag is set. Tag and pointer always agree, so the model joins them
  into one tagged payload.
\<close>

datatype itemPayload =
    ClipPayload ClipItem
  | TransitionPayload TransitionItem
  | GeneratorPayload GeneratorItem

record trackItem =
  start :: "64 word"
  payload :: itemPayload

definition collectItems :: "Track \<Rightarrow> trackItem list" where
  "collectItems fcpTrack =
     map (\<lambda>c. \<lparr>start = ci_Start c, payload = ClipPayload c\<rparr>) (t_ClipItem fcpTrack)
     @ map (\<lambda>t. \<lparr>start = ti_Start t, payload = TransitionPayload t\<rparr>) (t_TransitionItem fcpTrack)
     @ map (\<lambda>g. \<lparr>start = gi_Start g, payload = GeneratorPayload g\<rparr>) (t_GeneratorItem fcpTrack)"

text \<open>\<open>items[i], items[j] = items[j], items[i]\<close>\<close>

definition swapItems :: "nat \<Rightarrow> nat \<Rightarrow> 'a list \<Rightarrow> 'a list" where
  "swapItems i j items = items[i := items ! j, j := items ! i]"

text \<open>
  The two nested loops of the sort. \<open>sortInner i j\<close> is the inner loop from \<open>j\<close> on,
  \<open>sortOuter i\<close> the outer loop from \<open>i\<close> on; the outer test \<open>i < len(items) - 1\<close> on
  Go's signed \<open>int\<close> is \<open>i + 1 < length items\<close> on naturals.
\<close>

function sortInner :: "nat \<Rightarrow> nat \<Rightarrow> trackItem list \<Rightarrow> trackItem list" where
  "sortInner i j items =
     (if j < length items
      then sortInner i (j + 1)
             (if start (items ! j) <s start (items ! i) then swapItems i j items else items)
      else items)"
  by pat_completeness auto
termination
  by (relation "measure (\<lambda>(i, j, items). length items - j)") (auto simp: swapItems_def)

declare sortInner.simps [simp del]

lemma length_sortInner: "length (sortInner i j items) = length items"
proof (induction i j items rule: sortInner.induct)
  case (1 i j items)
  show ?case
  proof (cases "j < length items")
    case True
    with 1 show ?thesis
      by (subst sortInner.simps) (simp add: swapItems_def)
  next
    case False
    then show ?thesis
      by (subst sortInner.simps) simp
  qed
qed

function sortOuter :: "nat \<Rightarrow> trackItem list \<Rightarrow> trackItem list" where
  "sortOuter i items =
     (if i + 1 < length items then sortOuter (i + 1) (sortInner i (i + 1) items) else items)"
  by pat_completeness auto
termination
  by (relation "measure (\<lambda>(i, items). length items - i)") (auto simp: length_sortInner)

declare sortOuter.simps [simp del]

definition sortByStart :: "trackItem list \<Rightarrow> trackItem list" where
  "sortByStart items = sortOuter 0 items"

text \<open>
  The order the loops compare by, and a view of the loops as list functions, proved
  below to compute the same: \<open>selectMin p rest\<close> is one run of the inner loop with \<open>p\<close>
  at position \<open>i\<close> and \<open>rest\<close> behind it, returning what ends at position \<open>i\<close> and
  what is left behind it; \<open>exchangeSort\<close> is the outer loop.
\<close>

definition startKey :: "trackItem \<Rightarrow> int" where
  "startKey item = sint (start item)"

fun selectMin :: "trackItem \<Rightarrow> trackItem list \<Rightarrow> trackItem \<times> trackItem list" where
  "selectMin p [] = (p, [])"
| "selectMin p (r # rest) =
     (if startKey r < startKey p
      then (let (m, rest') = selectMin r rest in (m, p # rest'))
      else (let (m, rest') = selectMin p rest in (m, r # rest')))"

lemma length_selectMin: "length (snd (selectMin p rest)) = length rest"
  by (induction rest arbitrary: p) (auto simp: split_def Let_def)

function exchangeSort :: "trackItem list \<Rightarrow> trackItem list" where
  "exchangeSort [] = []"
| "exchangeSort (p # rest) = (let (m, rest') = selectMin p rest in m # exchangeSort rest')"
  by pat_completeness auto
termination
proof (relation "measure length")
  show "wf (measure length)" by simp
next
  fix p rest x m rest'
  assume "x = selectMin p rest" "(m, rest') = x"
  then have "rest' = snd (selectMin p rest)" by (metis snd_conv)
  then show "(rest', p # rest) \<in> measure length" by (simp add: length_selectMin)
qed

definition itemName :: "trackItem \<Rightarrow> string" where
  "itemName item =
     (case payload item of
        ClipPayload c \<Rightarrow> ci_Name c
      | TransitionPayload t \<Rightarrow> ti_Name t
      | GeneratorPayload g \<Rightarrow> gi_Name g)"

subsection \<open>Tracks, the sequence and the document\<close>

text \<open>
  The loop over the sorted items, with the three cases of the source's switch. \<open>i\<close> is
  the index of the item, for the error message.
\<close>

fun convertItems :: "Rate \<Rightarrow> nat \<Rightarrow> trackItem list \<Rightarrow> otio_Track \<Rightarrow> error + otio_Track" where
  "convertItems rate i [] track = Inr track"
| "convertItems rate i (item # rest) track =
     (case payload item of
        ClipPayload c \<Rightarrow>
          (case Decoder_convertClipItem c rate of
             Inl err \<Rightarrow> Inl (Wrap (''failed to convert clip '' @ showNat i) err)
           | Inr composable \<Rightarrow>
               (case Track_AppendChild track composable of
                  Inl err \<Rightarrow> Inl (Wrap ''failed to append clip'' err)
                | Inr track' \<Rightarrow> convertItems rate (i + 1) rest track'))
      | TransitionPayload t \<Rightarrow>
          (case Decoder_convertTransition t rate of
             Inl err \<Rightarrow> Inl (Wrap (''failed to convert transition '' @ showNat i) err)
           | Inr transition \<Rightarrow>
               (case Track_AppendChild track transition of
                  Inl err \<Rightarrow> Inl (Wrap ''failed to append transition'' err)
                | Inr track' \<Rightarrow> convertItems rate (i + 1) rest track'))
      | GeneratorPayload g \<Rightarrow>
          (case Decoder_convertGenerator g rate of
             Inl err \<Rightarrow> Inl (Wrap (''failed to convert generator '' @ showNat i) err)
           | Inr gen \<Rightarrow>
               (case Track_AppendChild track gen of
                  Inl err \<Rightarrow> Inl (Wrap ''failed to append generator'' err)
                | Inr track' \<Rightarrow> convertItems rate (i + 1) rest track')))"

definition Decoder_convertTrack :: "Track \<Rightarrow> Rate \<Rightarrow> string \<Rightarrow> nat \<Rightarrow> error + otio_Track" where
  "Decoder_convertTrack fcpTrack rate kind index =
     (let trackName = kind @ '' '' @ showNat (index + 1);
          track = \<lparr>track_name = trackName, track_kind = kind, track_enabled = True,
                   track_children = []\<rparr>;
          track = (if t_Enabled fcpTrack = Some False then track\<lparr>track_enabled := False\<rparr> else track);
          items = collectItems fcpTrack;
          items = sortByStart items
      in convertItems rate 0 items track)"

text \<open>
  The loop of \<open>convertSequence\<close> over the tracks of one media container; \<open>label\<close> is
  the word \<open>video\<close> or \<open>audio\<close> of the error messages.
\<close>

fun convertTrackList ::
  "Rate \<Rightarrow> string \<Rightarrow> string \<Rightarrow> nat \<Rightarrow> Track list \<Rightarrow> otio_Timeline \<Rightarrow> error + otio_Timeline" where
  "convertTrackList rate kind label i [] timeline = Inr timeline"
| "convertTrackList rate kind label i (fcpTrack # rest) timeline =
     (case Decoder_convertTrack fcpTrack rate kind i of
        Inl err \<Rightarrow> Inl (Wrap (''failed to convert '' @ label @ '' track '' @ showNat i) err)
      | Inr track \<Rightarrow>
          (case Stack_AppendChild timeline track of
             Inl err \<Rightarrow> Inl (Wrap (''failed to append '' @ label @ '' track'') err)
           | Inr timeline' \<Rightarrow> convertTrackList rate kind label (i + 1) rest timeline'))"

definition Decoder_convertSequence :: "Sequence \<Rightarrow> error + otio_Timeline" where
  "Decoder_convertSequence seq =
     (let timeline = \<lparr>timeline_name = seq_Name seq, timeline_tracks = []\<rparr>;
          afterVideo =
            (case media_Video (seq_Media seq) of
               Some video \<Rightarrow>
                 convertTrackList (seq_Rate seq) TrackKindVideo ''video'' 0 (v_Track video) timeline
             | None \<Rightarrow> Inr timeline)
      in case afterVideo of
           Inl err \<Rightarrow> Inl err
         | Inr timeline \<Rightarrow>
             (case media_Audio (seq_Media seq) of
                Some audio \<Rightarrow>
                  convertTrackList (seq_Rate seq) TrackKindAudio ''audio'' 0 (a_Track audio) timeline
              | None \<Rightarrow> Inr timeline))"

text \<open>
  The spec's names for the two errors of \<open>Decode\<close>. The XML codec is a collaborator:
  \<open>xmlDecode\<close> stands for it and returns the codec's error or the parsed document.
\<close>

definition MalformedDocument :: "error \<Rightarrow> error" where
  "MalformedDocument cause = Wrap ''failed to decode XML'' cause"

definition NoSequenceFound :: error where
  "NoSequenceFound = Err ''no sequence found in FCP7 XML''"

definition Decode :: "(string \<Rightarrow> error + XMEML) \<Rightarrow> string \<Rightarrow> error + otio_Timeline" where
  "Decode xmlDecode r =
     (case xmlDecode r of
        Inl err \<Rightarrow> Inl (MalformedDocument err)
      | Inr xmeml \<Rightarrow>
          (if length (x_Sequence xmeml) = 0 then Inl NoSequenceFound
           else Decoder_convertSequence (x_Sequence xmeml ! 0)))"

section \<open>Identifier sanitization (encoder helper \<open>sanitizeID\<close>)\<close>

text \<open>
  Go ranges over the runes of the string. Every rune the function keeps or replaces is
  ASCII, and every byte of a multi-byte UTF-8 sequence (or of an invalid one, which Go
  reads as U+FFFD) is at least 128 and is dropped like the rune it belongs to, so the
  walk over bytes below returns the same string as the walk over runes.
\<close>

definition isIDRune :: "char \<Rightarrow> bool" where
  "isIDRune r \<longleftrightarrow>
     (of_char (CHR ''a'') \<le> (of_char r :: nat) \<and> (of_char r :: nat) \<le> of_char (CHR ''z''))
   \<or> (of_char (CHR ''A'') \<le> (of_char r :: nat) \<and> (of_char r :: nat) \<le> of_char (CHR ''Z''))
   \<or> (of_char (CHR ''0'') \<le> (of_char r :: nat) \<and> (of_char r :: nat) \<le> of_char (CHR ''9''))
   \<or> r = CHR ''-'' \<or> r = CHR ''_''"

text \<open>One iteration of the loop body: \<open>result\<close> is the string built so far.\<close>

definition sanitizeStep :: "string \<Rightarrow> char \<Rightarrow> string" where
  "sanitizeStep result r =
     (if isIDRune r then result @ [r]
      else if r = CHR '' '' then result @ ''_''
      else result)"

definition sanitizeID :: "string \<Rightarrow> string" where
  "sanitizeID s =
     (let result = foldl sanitizeStep [] s
      in if result = [] then ''file'' else result)"

section \<open>The encoder\<close>

text \<open>
  What the encoder takes from outside the translator: the URL and path functions of the
  standard library (\<open>url.Parse\<close>, \<open>filepath.Abs\<close>, the printing of a \<open>file\<close> URL), the
  duration the timeline library computes for a whole timeline, and the XML codec.
\<close>

record Env =
  urlParse :: "string \<Rightarrow> error + string"
  filepathAbs :: "string \<Rightarrow> error + string"
  fileURLString :: "string \<Rightarrow> string"
  timelineDuration :: "otio_Timeline \<Rightarrow> error + RationalTime"
  xmlEncode :: "XMEML \<Rightarrow> error + string"

text \<open>
  \<open>isFileURL\<close>: the string parses as a URL whose scheme is \<open>file\<close>. Of the parsed URL
  the function reads the scheme only, which is what \<open>urlParse\<close> returns.
\<close>

definition isFileURL :: "Env \<Rightarrow> string \<Rightarrow> bool" where
  "isFileURL env s =
     (case urlParse env s of
        Inl err \<Rightarrow> False
      | Inr scheme \<Rightarrow> scheme = ''file'')"

subsection \<open>Metadata lowered into effects, filters and parameters\<close>

definition metadataToParameter :: "AnyDictionary \<Rightarrow> Parameter" where
  "metadataToParameter metadata =
     (let param = \<lparr>ParameterID = [], p_Name = [], p_Value = [], ValueID = [],
                   ValueMin = None, ValueMax = None, ValueList = []\<rparr>;
          param = (case asString (map_of metadata ''parameterid'') of Some v \<Rightarrow> param\<lparr>ParameterID := v\<rparr> | None \<Rightarrow> param);
          param = (case asString (map_of metadata ''name'') of Some v \<Rightarrow> param\<lparr>p_Name := v\<rparr> | None \<Rightarrow> param);
          param = (case asString (map_of metadata ''value'') of Some v \<Rightarrow> param\<lparr>p_Value := v\<rparr> | None \<Rightarrow> param);
          param = (case asString (map_of metadata ''valueid'') of Some v \<Rightarrow> param\<lparr>ValueID := v\<rparr> | None \<Rightarrow> param);
          param = (case asFloat64 (map_of metadata ''valuemin'') of Some v \<Rightarrow> param\<lparr>ValueMin := Some v\<rparr> | None \<Rightarrow> param);
          param = (case asFloat64 (map_of metadata ''valuemax'') of Some v \<Rightarrow> param\<lparr>ValueMax := Some v\<rparr> | None \<Rightarrow> param);
          param = (case asString (map_of metadata ''valuelist'') of Some v \<Rightarrow> param\<lparr>ValueList := v\<rparr> | None \<Rightarrow> param)
      in param)"

definition metadataToEffect :: "AnyDictionary \<Rightarrow> Effect" where
  "metadataToEffect metadata =
     (let effect = \<lparr>e_Name = [], EffectID = [], EffectType = [], MediaType = [],
                    EffectCategory = [], e_Duration = 0, StartRatio = None, EndRatio = None,
                    Reverse = None, e_Parameter = []\<rparr>;
          effect = (case asString (map_of metadata ''name'') of Some v \<Rightarrow> effect\<lparr>e_Name := v\<rparr> | None \<Rightarrow> effect);
          effect = (case asString (map_of metadata ''effectid'') of Some v \<Rightarrow> effect\<lparr>EffectID := v\<rparr> | None \<Rightarrow> effect);
          effect = (case asString (map_of metadata ''effecttype'') of Some v \<Rightarrow> effect\<lparr>EffectType := v\<rparr> | None \<Rightarrow> effect);
          effect = (case asString (map_of metadata ''mediatype'') of Some v \<Rightarrow> effect\<lparr>MediaType := v\<rparr> | None \<Rightarrow> effect);
          effect = (case asString (map_of metadata ''effectcategory'') of Some v \<Rightarrow> effect\<lparr>EffectCategory := v\<rparr> | None \<Rightarrow> effect);
          effect = (case asInt64 (map_of metadata ''duration'') of Some v \<Rightarrow> effect\<lparr>e_Duration := v\<rparr> | None \<Rightarrow> effect);
          effect = (case asFloat64 (map_of metadata ''startratio'') of Some v \<Rightarrow> effect\<lparr>StartRatio := Some v\<rparr> | None \<Rightarrow> effect);
          effect = (case asFloat64 (map_of metadata ''endratio'') of Some v \<Rightarrow> effect\<lparr>EndRatio := Some v\<rparr> | None \<Rightarrow> effect);
          effect = (case asBool (map_of metadata ''reverse'') of Some v \<Rightarrow> effect\<lparr>Reverse := Some v\<rparr> | None \<Rightarrow> effect);
          effect = (case asDictList (map_of metadata ''parameters'') of Some params \<Rightarrow>
                        effect\<lparr>e_Parameter := e_Parameter effect @ map metadataToParameter params\<rparr>
                    | None \<Rightarrow> effect)
      in effect)"

definition metadataToEffects :: "AnyDictionary list \<Rightarrow> Effect list" where
  "metadataToEffects metadataArray = map metadataToEffect metadataArray"

definition metadataToFilter :: "AnyDictionary \<Rightarrow> Filter" where
  "metadataToFilter meta =
     (let filter = \<lparr>f_Enabled = None, f_Start = 0, f_End = 0, f_Effect = None\<rparr>;
          filter = (case asBool (map_of meta ''enabled'') of Some v \<Rightarrow> filter\<lparr>f_Enabled := Some v\<rparr> | None \<Rightarrow> filter);
          filter = (case asInt64 (map_of meta ''start'') of Some v \<Rightarrow> filter\<lparr>f_Start := v\<rparr> | None \<Rightarrow> filter);
          filter = (case asInt64 (map_of meta ''end'') of Some v \<Rightarrow> filter\<lparr>f_End := v\<rparr> | None \<Rightarrow> filter);
          filter = (case asDict (map_of meta ''effect'') of Some v \<Rightarrow> filter\<lparr>f_Effect := Some (metadataToEffect v)\<rparr> | None \<Rightarrow> filter)
      in filter)"

definition metadataToFilters :: "AnyDictionary list \<Rightarrow> Filter list" where
  "metadataToFilters metadataArray = map metadataToFilter metadataArray"

text \<open>Reading a missing key of a \<open>map[string]int\<close> gives zero.\<close>

definition intMapGet :: "(string \<times> int) list \<Rightarrow> string \<Rightarrow> int" where
  "intMapGet m k = (case map_of m k of Some v \<Rightarrow> v | None \<Rightarrow> 0)"

definition Encoder_convertMarkerToFCP :: "otio_Marker \<Rightarrow> Marker" where
  "Encoder_convertMarkerToFCP marker =
     (let markedRange = marked_range marker;
          inPoint = toInt64 (rt_value (range_start markedRange));
          outPoint = inPoint + toInt64 (rt_value (range_duration markedRange));
          fcpMarker = \<lparr>m_Name = marker_name marker, m_Comment = marker_comment marker,
                       m_In = inPoint, m_Out = outPoint, m_Color = None\<rparr>;
          fcpMarker = (case asIntMap (map_of (marker_metadata marker) ''fcp7xml_color'') of Some colorMap \<Rightarrow>
                           fcpMarker\<lparr>m_Color := Some
                             \<lparr>Red = intMapGet colorMap ''red'', Green = intMapGet colorMap ''green'',
                              Blue = intMapGet colorMap ''blue'', Alpha = intMapGet colorMap ''alpha''\<rparr>\<rparr>
                       | None \<Rightarrow> fcpMarker)
      in fcpMarker)"

subsection \<open>Media references, clips, generators and transitions\<close>

text \<open>
  \<open>convertMediaReference\<close> returns a file and an error in the source; no path of it
  returns an error, so the result is an \<open>Inr\<close>.
\<close>

definition Encoder_convertMediaReference :: "Env \<Rightarrow> MediaReference \<Rightarrow> Rate \<Rightarrow> error + File" where
  "Encoder_convertMediaReference env ref rate =
     (let fileID = ''file-'' @ sanitizeID (ref_name ref);
          file = \<lparr>file_ID = fileID, file_Name = ref_name ref, PathURL = [],
                  file_Rate = rate, file_Duration = 0\<rparr>
      in case ref of
           ExternalReference n url ar \<Rightarrow>
             (let targetURL = url;
                  file =
                    (if targetURL \<noteq> []
                     then (let targetURL =
                                 (if \<not> isFileURL env targetURL
                                  then (case filepathAbs env targetURL of
                                          Inr absPath \<Rightarrow> fileURLString env absPath
                                        | Inl err \<Rightarrow> targetURL)
                                  else targetURL)
                           in file\<lparr>PathURL := targetURL\<rparr>)
                     else file);
                  file = (case ar of
                            Some a \<Rightarrow> file\<lparr>file_Duration := toInt64 (rt_value (range_duration a))\<rparr>
                          | None \<Rightarrow> file)
              in Inr file)
         | MissingReference n ar \<Rightarrow> Inr (file\<lparr>PathURL := []\<rparr>)
         | _ \<Rightarrow> Inr (file\<lparr>PathURL := []\<rparr>))"

text \<open>The spec's name for the error \<open>convertClip\<close> wraps around a failed reference.\<close>

definition MediaReferenceConversionFailed :: "error \<Rightarrow> error" where
  "MediaReferenceConversionFailed cause = Wrap ''failed to convert media reference'' cause"

definition Encoder_convertClip :: "Env \<Rightarrow> otio_Clip \<Rightarrow> Rate \<Rightarrow> 64 word \<Rightarrow> error + ClipItem" where
  "Encoder_convertClip env clip rate startPosition =
     (case (case source_range clip of
              Some sr \<Rightarrow> Inr sr
            | None \<Rightarrow>
                (case Clip_AvailableRange clip of
                   Inl err \<Rightarrow> Inl (Wrap ''failed to get available range'' err)
                 | Inr ar \<Rightarrow> Inr ar)) of
        Inl err \<Rightarrow> Inl err
      | Inr sourceRange \<Rightarrow>
          (let inPoint = toInt64 (rt_value (range_start sourceRange));
               outPoint = inPoint + toInt64 (rt_value (range_duration sourceRange));
               duration = toInt64 (rt_value (range_duration sourceRange));
               clipItem = \<lparr>ci_ID = [], ci_Name = clip_name clip, ci_Enabled = None,
                           ci_Duration = duration, ci_Rate = rate,
                           ci_Start = startPosition, ci_End = startPosition + duration,
                           ci_In = inPoint, ci_Out = outPoint,
                           ci_File = None, ci_Sequence = None,
                           ci_Filter = [], ci_Effect = [], ci_Marker = []\<rparr>;
               enabled = clip_enabled clip;
               clipItem = clipItem\<lparr>ci_Enabled := Some enabled\<rparr>;
               metadata = clip_metadata clip;
               clipItem = (case asString (map_of metadata ''fcp7xml_id'') of Some idv \<Rightarrow> clipItem\<lparr>ci_ID := idv\<rparr> | None \<Rightarrow> clipItem);
               clipItem = (case asDictList (map_of metadata ''fcp7xml_effects'') of Some effects \<Rightarrow> clipItem\<lparr>ci_Effect := metadataToEffects effects\<rparr> | None \<Rightarrow> clipItem);
               clipItem = (case asDictList (map_of metadata ''fcp7xml_filters'') of Some filters \<Rightarrow> clipItem\<lparr>ci_Filter := metadataToFilters filters\<rparr> | None \<Rightarrow> clipItem);
               clipItem = clipItem\<lparr>ci_Marker := ci_Marker clipItem @ map Encoder_convertMarkerToFCP (clip_markers clip)\<rparr>
           in case media_reference clip of
                None \<Rightarrow> Inr clipItem
              | Some mediaRef \<Rightarrow>
                  (case Encoder_convertMediaReference env mediaRef rate of
                     Inl err \<Rightarrow> Inl (MediaReferenceConversionFailed err)
                   | Inr file \<Rightarrow> Inr (clipItem\<lparr>ci_File := Some file\<rparr>))))"

text \<open>
  \<open>convertToGenerator\<close> returns a flag and a pointer: \<open>(false, nil)\<close> is \<open>None\<close>,
  \<open>(true, item)\<close> is \<open>Some item\<close>.
\<close>

definition Encoder_convertToGenerator :: "otio_Clip \<Rightarrow> Rate \<Rightarrow> 64 word \<Rightarrow> GeneratorItem option" where
  "Encoder_convertToGenerator clip rate startPosition =
     (let metadata = clip_metadata clip
      in case asBool (map_of metadata ''fcp7xml_generator'') of Some isGen \<Rightarrow>
             (if \<not> isGen then None
              else case Clip_Duration clip of
                     Inl err \<Rightarrow> None
                   | Inr dur \<Rightarrow>
                       (let duration = toInt64 (rt_value dur);
                            inPoint = 0;
                            outPoint = duration;
                            (inPoint, outPoint) =
                              (case source_range clip of
                                 Some sr \<Rightarrow>
                                   (let inPoint = toInt64 (rt_value (range_start sr))
                                    in (inPoint, inPoint + duration))
                               | None \<Rightarrow> (inPoint, outPoint));
                            genItem = \<lparr>gi_Name = clip_name clip, gi_Duration = duration,
                                       gi_Rate = rate, gi_Start = startPosition,
                                       gi_End = startPosition + duration,
                                       gi_In = inPoint, gi_Out = outPoint,
                                       gi_Enabled = None, gi_Effect = None,
                                       gi_Filter = [], gi_Marker = []\<rparr>;
                            enabled = clip_enabled clip;
                            genItem = genItem\<lparr>gi_Enabled := Some enabled\<rparr>;
                            genItem = (case asDict (map_of metadata ''fcp7xml_effect'') of Some effectMeta \<Rightarrow> genItem\<lparr>gi_Effect := Some (metadataToEffect effectMeta)\<rparr> | None \<Rightarrow> genItem);
                            genItem = (case asDictList (map_of metadata ''fcp7xml_filters'') of Some filters \<Rightarrow> genItem\<lparr>gi_Filter := metadataToFilters filters\<rparr> | None \<Rightarrow> genItem);
                            genItem = genItem\<lparr>gi_Marker := gi_Marker genItem @ map Encoder_convertMarkerToFCP (clip_markers clip)\<rparr>
                        in Some genItem))
         | None \<Rightarrow> None)"

definition Encoder_convertTransitionToItem ::
  "otio_Transition \<Rightarrow> Rate \<Rightarrow> 64 word \<Rightarrow> error + TransitionItem" where
  "Encoder_convertTransitionToItem transition rate startPosition =
     (let duration = RationalTime_Add (in_offset transition) (out_offset transition);
          durationFrames = toInt64 (rt_value duration);
          transItem = \<lparr>ti_Name = transition_name transition, ti_Rate = rate,
                       ti_Start = startPosition, ti_End = startPosition + durationFrames,
                       ti_Alignment = ''center'', ti_Effect = None\<rparr>;
          metadata = transition_metadata transition;
          transItem = (case asString (map_of metadata ''fcp7xml_alignment'') of Some alignment \<Rightarrow> transItem\<lparr>ti_Alignment := alignment\<rparr> | None \<Rightarrow> transItem);
          transItem = (case asDict (map_of metadata ''fcp7xml_effect'') of Some effectMeta \<Rightarrow> transItem\<lparr>ti_Effect := Some (metadataToEffect effectMeta)\<rparr> | None \<Rightarrow> transItem)
      in Inr transItem)"

subsection \<open>Tracks\<close>

text \<open>
  The loop of \<open>convertTrack\<close> over the children: \<open>fcpTrack\<close> is the track built so far
  and \<open>currentPosition\<close> the cursor in frames.
\<close>

fun convertChildren ::
  "Env \<Rightarrow> Rate \<Rightarrow> Composable list \<Rightarrow> Track \<Rightarrow> 64 word \<Rightarrow> error + Track" where
  "convertChildren env rate [] fcpTrack currentPosition = Inr fcpTrack"
| "convertChildren env rate (ClipChild item # rest) fcpTrack currentPosition =
     (case (case Encoder_convertToGenerator item rate currentPosition of
              Some genItem \<Rightarrow>
                Inr (fcpTrack\<lparr>t_GeneratorItem := t_GeneratorItem fcpTrack @ [genItem]\<rparr>)
            | None \<Rightarrow>
                (case Encoder_convertClip env item rate currentPosition of
                   Inl err \<Rightarrow> Inl (Wrap ''failed to convert clip'' err)
                 | Inr clipItem \<Rightarrow>
                     Inr (fcpTrack\<lparr>t_ClipItem := t_ClipItem fcpTrack @ [clipItem]\<rparr>))) of
        Inl err \<Rightarrow> Inl err
      | Inr fcpTrack' \<Rightarrow>
          (case Clip_Duration item of
             Inl err \<Rightarrow> Inl (Wrap ''failed to get clip duration'' err)
           | Inr dur \<Rightarrow>
               convertChildren env rate rest fcpTrack' (currentPosition + toInt64 (rt_value dur))))"
| "convertChildren env rate (TransitionChild item # rest) fcpTrack currentPosition =
     (case Encoder_convertTransitionToItem item rate currentPosition of
        Inl err \<Rightarrow> Inl (Wrap ''failed to convert transition'' err)
      | Inr transItem \<Rightarrow>
          (let fcpTrack' = fcpTrack\<lparr>t_TransitionItem := t_TransitionItem fcpTrack @ [transItem]\<rparr>;
               dur = RationalTime_Add (in_offset item) (out_offset item)
           in convertChildren env rate rest fcpTrack' (currentPosition + toInt64 (rt_value dur))))"
| "convertChildren env rate (GapChild item # rest) fcpTrack currentPosition =
     (case Gap_Duration item of
        Inl err \<Rightarrow> Inl (Wrap ''failed to get gap duration'' err)
      | Inr dur \<Rightarrow>
          convertChildren env rate rest fcpTrack (currentPosition + toInt64 (rt_value dur)))"
| "convertChildren env rate (OtherChild other # rest) fcpTrack currentPosition =
     convertChildren env rate rest fcpTrack currentPosition"

definition Encoder_convertTrack :: "Env \<Rightarrow> otio_Track \<Rightarrow> Rate \<Rightarrow> error + Track" where
  "Encoder_convertTrack env track rate =
     (let fcpTrack = \<lparr>t_Enabled = None, t_ClipItem = [], t_TransitionItem = [],
                      t_GeneratorItem = []\<rparr>;
          enabled = track_enabled track;
          fcpTrack = fcpTrack\<lparr>t_Enabled := Some enabled\<rparr>;
          currentPosition = 0
      in convertChildren env rate (track_children track) fcpTrack currentPosition)"

subsection \<open>The sequence and the document\<close>

text \<open>
  The loop of \<open>convertTracks\<close> over the video or the audio tracks; \<open>label\<close> is the word
  \<open>video\<close> or \<open>audio\<close> of the error message, \<open>fcpTracks\<close> the tracks converted so far.
\<close>

fun encodeTrackList ::
  "Env \<Rightarrow> Rate \<Rightarrow> string \<Rightarrow> otio_Track list \<Rightarrow> Track list \<Rightarrow> error + Track list" where
  "encodeTrackList env rate label [] fcpTracks = Inr fcpTracks"
| "encodeTrackList env rate label (track # rest) fcpTracks =
     (case Encoder_convertTrack env track rate of
        Inl err \<Rightarrow> Inl (Wrap (''failed to convert '' @ label @ '' track'') err)
      | Inr fcpTrack \<Rightarrow> encodeTrackList env rate label rest (fcpTracks @ [fcpTrack]))"

definition Encoder_convertTracks ::
  "Env \<Rightarrow> otio_Timeline \<Rightarrow> float64 \<Rightarrow> bool \<Rightarrow> error + Sequence" where
  "Encoder_convertTracks env timeline frameRate isNTSC =
     (let rate = encoderRate frameRate isNTSC
      in case timelineDuration env timeline of
           Inl err \<Rightarrow> Inl (Wrap ''failed to get timeline duration'' err)
         | Inr duration \<Rightarrow>
             (let durationFrames = toInt64 (rt_value duration);
                  sequence = \<lparr>seq_Name = timeline_name timeline, seq_Duration = durationFrames,
                              seq_Rate = rate,
                              seq_Media = \<lparr>media_Video = None, media_Audio = None\<rparr>\<rparr>
              in case encodeTrackList env rate ''video'' (VideoTracks timeline) [] of
                   Inl err \<Rightarrow> Inl err
                 | Inr videoTracks \<Rightarrow>
                     (let sequence =
                            (if 0 < length videoTracks
                             then sequence\<lparr>seq_Media := (seq_Media sequence)\<lparr>media_Video := Some \<lparr>v_Track = videoTracks\<rparr>\<rparr>\<rparr>
                             else sequence)
                      in case encodeTrackList env rate ''audio'' (AudioTracks timeline) [] of
                           Inl err \<Rightarrow> Inl err
                         | Inr audioTracks \<Rightarrow>
                             (let sequence =
                                    (if 0 < length audioTracks
                                     then sequence\<lparr>seq_Media := (seq_Media sequence)\<lparr>media_Audio := Some \<lparr>a_Track = audioTracks\<rparr>\<rparr>\<rparr>
                                     else sequence)
                              in Inr sequence))))"

text \<open>
  The scan of \<open>convertTimeline\<close> for the working frame rate, over the children of the
  timeline's stack: \<open>Some r\<close> when the loop breaks with rate \<open>r\<close>, \<open>None\<close> when it runs
  to its end and the defaults stay.
\<close>

fun findFrameRate :: "StackChild list \<Rightarrow> float64 option" where
  "findFrameRate [] = None"
| "findFrameRate (TrackChild track # rest) =
     (if 0 < length (track_children track)
      then (case track_children track ! 0 of
              ClipChild clip \<Rightarrow>
                (case Clip_Duration clip of
                   Inr dur \<Rightarrow> (if 0 < rt_rate dur then Some (rt_rate dur) else findFrameRate rest)
                 | Inl err \<Rightarrow> findFrameRate rest)
            | _ \<Rightarrow> findFrameRate rest)
      else findFrameRate rest)"
| "findFrameRate (ItemChild other # rest) = findFrameRate rest"

definition Encoder_convertTimeline :: "Env \<Rightarrow> otio_Timeline \<Rightarrow> error + XMEML" where
  "Encoder_convertTimeline env timeline =
     (let (frameRate, isNTSC) =
            (case findFrameRate (timeline_tracks timeline) of
               Some r \<Rightarrow> (r, isNTSCRate r)
             | None \<Rightarrow> (24, False))
      in case Encoder_convertTracks env timeline frameRate isNTSC of
           Inl err \<Rightarrow> Inl err
         | Inr sequence \<Rightarrow> Inr \<lparr>Version = ''5'', x_Sequence = [sequence]\<rparr>)"

definition NilTimeline :: error where
  "NilTimeline = Err ''timeline cannot be nil''"

text \<open>
  \<open>Encode\<close> returns the bytes it writes: the XML declaration, the DOCTYPE line, the
  document as the codec prints it, a newline. Writes to the stream are taken to succeed.
\<close>

definition xmlHeader :: string where
  "xmlHeader = ''<?xml version='' @ [CHR 0x22] @ ''1.0'' @ [CHR 0x22] @ '' encoding=''
     @ [CHR 0x22] @ ''UTF-8'' @ [CHR 0x22] @ ''?>'' @ [CHR 0x0A]"

definition Encode :: "Env \<Rightarrow> otio_Timeline option \<Rightarrow> error + string" where
  "Encode env timeline =
     (case timeline of
        None \<Rightarrow> Inl NilTimeline
      | Some present \<Rightarrow>
          (case Encoder_convertTimeline env present of
             Inl err \<Rightarrow> Inl (Wrap ''failed to convert timeline'' err)
           | Inr xmeml \<Rightarrow>
               (case xmlEncode env xmeml of
                  Inl err \<Rightarrow> Inl (Wrap ''failed to encode XML'' err)
                | Inr body \<Rightarrow> Inr (xmlHeader @ ''<!DOCTYPE xmeml>'' @ [CHR 0x0A] @ body @ [CHR 0x0A]))))"

section \<open>Notions used in the statements\<close>

text \<open>What the decoder's loop makes of one item: the result of the converter of its kind.\<close>

definition decodeItem :: "Rate \<Rightarrow> trackItem \<Rightarrow> error + Composable" where
  "decodeItem rate item =
     (case payload item of
        ClipPayload c \<Rightarrow> Decoder_convertClipItem c rate
      | TransitionPayload t \<Rightarrow> Decoder_convertTransition t rate
      | GeneratorPayload g \<Rightarrow> Decoder_convertGenerator g rate)"

text \<open>The clips and the transitions among the children of a track, in order.\<close>

fun clipsOf :: "Composable list \<Rightarrow> otio_Clip list" where
  "clipsOf [] = []"
| "clipsOf (ClipChild c # rest) = c # clipsOf rest"
| "clipsOf (other # rest) = clipsOf rest"

fun transitionsOf :: "Composable list \<Rightarrow> otio_Transition list" where
  "transitionsOf [] = []"
| "transitionsOf (TransitionChild t # rest) = t # transitionsOf rest"
| "transitionsOf (other # rest) = transitionsOf rest"

text \<open>The metadata of the clip maps \<open>fcp7xml_generator\<close> to the boolean true.\<close>

definition isGeneratorClip :: "otio_Clip \<Rightarrow> bool" where
  "isGeneratorClip clip \<longleftrightarrow> map_of (clip_metadata clip) ''fcp7xml_generator'' = Some (AnyBool True)"

text \<open>All tracks of an encoded sequence, video before audio.\<close>

definition sequenceTracks :: "Sequence \<Rightarrow> Track list" where
  "sequenceTracks seq =
     (case media_Video (seq_Media seq) of Some v \<Rightarrow> v_Track v | None \<Rightarrow> [])
     @ (case media_Audio (seq_Media seq) of Some a \<Rightarrow> a_Track a | None \<Rightarrow> [])"

text \<open>The child has a source range of its own, so that its duration is known.\<close>

definition childHasRange :: "Composable \<Rightarrow> bool" where
  "childHasRange child =
     (case child of
        ClipChild c \<Rightarrow> source_range c \<noteq> None
      | GapChild g \<Rightarrow> gap_source_range g \<noteq> None
      | _ \<Rightarrow> True)"

text \<open>
  The rate a track offers as working rate: that of the duration of its leading child,
  when this is a clip whose duration is known and has a positive rate.
\<close>

definition leadingClipRate :: "StackChild \<Rightarrow> float64 option" where
  "leadingClipRate child =
     (case child of
        TrackChild track \<Rightarrow>
          (case track_children track of
             ClipChild clip # others \<Rightarrow>
               (case Clip_Duration clip of
                  Inr dur \<Rightarrow> if 0 < rt_rate dur then Some (rt_rate dur) else None
                | Inl err \<Rightarrow> None)
           | _ \<Rightarrow> None)
      | ItemChild other \<Rightarrow> None)"

text \<open>
  The one rate of an encoded sequence: from the first track of the stack that offers a
  rate, 24 frames per second without drop-frame when none does.
\<close>

definition workingRate :: "otio_Timeline \<Rightarrow> Rate" where
  "workingRate timeline =
     (case List.map_filter leadingClipRate (timeline_tracks timeline) of
        r # others \<Rightarrow> encoderRate r (isNTSCRate r)
      | [] \<Rightarrow> \<lparr>Timebase = 24, NTSC = False\<rparr>)"

text \<open>
  The tracks of the video container and of the audio container of a sequence; none when
  the container is absent.
\<close>

definition videoTracksOf :: "Sequence \<Rightarrow> Track list" where
  "videoTracksOf seq = (case media_Video (seq_Media seq) of Some video \<Rightarrow> v_Track video | None \<Rightarrow> [])"

definition audioTracksOf :: "Sequence \<Rightarrow> Track list" where
  "audioTracksOf seq = (case media_Audio (seq_Media seq) of Some audio \<Rightarrow> a_Track audio | None \<Rightarrow> [])"

text \<open>
  The model track that stands for the schema track \<open>snd source\<close> at position \<open>fst source\<close> of
  its container: it is named by the kind and the position counted from one, it is
  enabled unless the document disables it, and its children are the translations of the
  items of the track in the order of the decoder's sort.
\<close>

definition translatedTrack :: "Rate \<Rightarrow> string \<Rightarrow> nat \<times> Track \<Rightarrow> otio_Track \<Rightarrow> bool" where
  "translatedTrack rate kind source track \<longleftrightarrow>
     track_name track = kind @ '' '' @ showNat (fst source + 1)
     \<and> track_kind track = kind
     \<and> track_enabled track = (t_Enabled (snd source) \<noteq> Some False)
     \<and> map Inr (track_children track)
         = map (decodeItem rate) (sortByStart (collectItems (snd source)))"

text \<open>
  Every item of the schema track is kept: the children of the model track are the
  translations of its clip, transition and generator items, each item once.
\<close>

definition keepsEveryItem :: "Rate \<Rightarrow> Track \<Rightarrow> otio_Track \<Rightarrow> bool" where
  "keepsEveryItem rate fcpTrack track \<longleftrightarrow>
     mset (map Inr (track_children track)) = mset (map (decodeItem rate) (collectItems fcpTrack))
     \<and> length (track_children track)
         = length (t_ClipItem fcpTrack) + length (t_TransitionItem fcpTrack)
           + length (t_GeneratorItem fcpTrack)"

section \<open>Example documents and timelines\<close>

definition rate24 :: Rate where
  "rate24 = \<lparr>Timebase = 24, NTSC = False\<rparr>"

definition plainClipItem :: "string \<Rightarrow> 64 word \<Rightarrow> 64 word \<Rightarrow> ClipItem" where
  "plainClipItem name s e =
     \<lparr>ci_ID = [], ci_Name = name, ci_Enabled = None, ci_Duration = e - s, ci_Rate = rate24,
      ci_Start = s, ci_End = e, ci_In = 0, ci_Out = e - s, ci_File = None,
      ci_Sequence = None, ci_Filter = [], ci_Effect = [], ci_Marker = []\<rparr>"

definition slugItem :: "string \<Rightarrow> 64 word \<Rightarrow> 64 word \<Rightarrow> GeneratorItem" where
  "slugItem name s e =
     \<lparr>gi_Name = name, gi_Duration = e - s, gi_Rate = rate24, gi_Start = s, gi_End = e,
      gi_In = 0, gi_Out = e - s, gi_Enabled = None, gi_Effect = None, gi_Filter = [],
      gi_Marker = []\<rparr>"

definition dissolveItem :: "string \<Rightarrow> 64 word \<Rightarrow> 64 word \<Rightarrow> TransitionItem" where
  "dissolveItem name s e =
     \<lparr>ti_Name = name, ti_Rate = rate24, ti_Start = s, ti_End = e, ti_Alignment = ''center'',
      ti_Effect = None\<rparr>"

definition frames :: "float64 \<Rightarrow> float64 \<Rightarrow> RationalTime" where
  "frames n r = NewRationalTime n r"

definition modelClip :: "string \<Rightarrow> MediaReference option \<Rightarrow> float64 \<Rightarrow> float64 \<Rightarrow> otio_Clip" where
  "modelClip name ref n r =
     \<lparr>clip_name = name, media_reference = ref,
      source_range = Some (NewTimeRange (frames 0 r) (frames n r)),
      clip_metadata = [], clip_markers = [], clip_enabled = True\<rparr>"

definition modelGap :: "float64 \<Rightarrow> float64 \<Rightarrow> otio_Gap" where
  "modelGap n r = \<lparr>gap_name = [], gap_source_range = Some (NewTimeRange (frames 0 r) (frames n r))\<rparr>"

definition videoTrack :: "Composable list \<Rightarrow> otio_Track" where
  "videoTrack children =
     \<lparr>track_name = ''Video 1'', track_kind = TrackKindVideo, track_enabled = True,
      track_children = children\<rparr>"

text \<open>An environment whose timeline duration is \<open>d\<close>, with simple URL functions.\<close>

definition exampleEnv :: "RationalTime \<Rightarrow> Env" where
  "exampleEnv d =
     \<lparr>urlParse = (\<lambda>s. Inr (if take 7 s = ''file://'' then ''file'' else [])),
      filepathAbs = (\<lambda>s. Inr s),
      fileURLString = (\<lambda>s. ''file://'' @ s),
      timelineDuration = (\<lambda>tl. Inr d),
      xmlEncode = (\<lambda>x. Inr [])\<rparr>"

text \<open>Tracks and sequences of the interchange schema.\<close>

definition tieTrack :: Track where
  "tieTrack =
     \<lparr>t_Enabled = None,
      t_ClipItem = [plainClipItem ''clip'' 50 100],
      t_TransitionItem = [dissolveItem ''dissolve'' 50 60],
      t_GeneratorItem = [slugItem ''slug'' 0 50]\<rparr>"

definition crossTrack :: Track where
  "crossTrack =
     \<lparr>t_Enabled = None,
      t_ClipItem = [plainClipItem ''a'' 0 50, plainClipItem ''b'' 50 100],
      t_TransitionItem = [dissolveItem ''x'' 45 55],
      t_GeneratorItem = []\<rparr>"

definition orderedTrack :: Track where
  "orderedTrack =
     \<lparr>t_Enabled = None,
      t_ClipItem = [plainClipItem ''a'' 0 50, plainClipItem ''b'' 50 100],
      t_TransitionItem = [dissolveItem ''x'' 50 60],
      t_GeneratorItem = []\<rparr>"

definition nestedTrack :: Track where
  "nestedTrack =
     \<lparr>t_Enabled = None,
      t_ClipItem = [(plainClipItem ''nested'' 0 50)\<lparr>ci_Sequence := Some \<lparr>ns_Name = ''Inner''\<rparr>\<rparr>,
                    plainClipItem ''after'' 50 100],
      t_TransitionItem = [],
      t_GeneratorItem = []\<rparr>"

definition exampleSequence :: "string \<Rightarrow> Track list \<Rightarrow> Sequence" where
  "exampleSequence name tracks =
     \<lparr>seq_Name = name, seq_Duration = 100, seq_Rate = rate24,
      seq_Media = \<lparr>media_Video = Some \<lparr>v_Track = tracks\<rparr>, media_Audio = None\<rparr>\<rparr>"

text \<open>
  Streams as the XML codec reads them, written without attributes. In the first sequence
  the text of the \<open>start\<close> element of the first clip item is left open: \<open>start\<close> is an
  \<open>int64\<close> field of the schema.
\<close>

definition rateXml :: string where
  "rateXml = ''<rate><timebase>24</timebase><ntsc>false</ntsc></rate>''"

definition clipItemXml :: "string \<Rightarrow> string \<Rightarrow> string \<Rightarrow> string \<Rightarrow> string" where
  "clipItemXml name startText endText inner =
     ''<clipitem><name>'' @ name @ ''</name><duration>50</duration>'' @ rateXml
     @ ''<start>'' @ startText @ ''</start><end>'' @ endText @ ''</end><in>0</in><out>50</out>''
     @ inner @ ''</clipitem>''"

definition sequenceXml :: "string \<Rightarrow> string list \<Rightarrow> string" where
  "sequenceXml name items =
     ''<sequence><name>'' @ name @ ''</name><duration>100</duration>'' @ rateXml
     @ ''<media><video><track>'' @ concat items @ ''</track></video></media></sequence>''"

definition documentXml :: "string list \<Rightarrow> string" where
  "documentXml sequences = ''<xmeml>'' @ concat sequences @ ''</xmeml>''"

definition sequenceAXml :: "string \<Rightarrow> string" where
  "sequenceAXml startText =
     sequenceXml ''A''
       [clipItemXml ''nested'' startText ''50'' ''<sequence><name>Inner</name></sequence>'',
        clipItemXml ''after'' ''50'' ''100'' []]"

definition sequenceBXml :: string where
  "sequenceBXml = sequenceXml ''B'' [clipItemXml ''other'' ''0'' ''50'' []]"

definition firstOnlyStream :: string where
  "firstOnlyStream = documentXml [sequenceAXml ''0'']"

definition twoSequenceStream :: string where
  "twoSequenceStream = documentXml [sequenceAXml ''0'', sequenceBXml]"

definition mismatchStream :: string where
  "mismatchStream = documentXml [sequenceAXml ''abc'']"

definition noSequenceStream :: string where
  "noSequenceStream = documentXml []"

text \<open>
  The stream of \<open>TestDecoder_DecodeInvalidXML\<close>, whose root is not \<open>xmeml\<close>, and a stream
  that ends before its elements are closed.
\<close>

definition wrongRootStream :: string where
  "wrongRootStream = ''<invalid>This is not valid FCP XML</invalid>''"


text \<open>
  The XML codec is a collaborator (\<open>encoding/xml\<close>). \<open>exampleCodec\<close> stands for it on
  the streams above and gives what the codec returns for each: the parsed document,
  the error of \<open>strconv.ParseInt\<close> for the text \<open>abc\<close> in the field \<open>start\<close>, the error for
  a root element other than \<open>xmeml\<close>, and a syntax error for a stream that is cut short.
  Every other stream is reported as a syntax error.
\<close>

definition otherTrack :: Track where
  "otherTrack =
     \<lparr>t_Enabled = None, t_ClipItem = [plainClipItem ''other'' 0 50], t_TransitionItem = [],
      t_GeneratorItem = []\<rparr>"

definition exampleCodec :: "string \<Rightarrow> error + XMEML" where
  "exampleCodec s =
     (if s = twoSequenceStream then
        Inr \<lparr>Version = [],
             x_Sequence = [exampleSequence ''A'' [nestedTrack], exampleSequence ''B'' [otherTrack]]\<rparr>
      else if s = firstOnlyStream then
        Inr \<lparr>Version = [], x_Sequence = [exampleSequence ''A'' [nestedTrack]]\<rparr>
      else if s = noSequenceStream then
        Inr \<lparr>Version = [], x_Sequence = []\<rparr>
      else if s = mismatchStream then
        Inl (Err ''strconv.ParseInt: parsing abc: invalid syntax'')
      else if s = wrongRootStream then
        Inl (Err ''expected element type <xmeml> but have <invalid>'')
      else Inl (Err ''XML syntax error: unexpected EOF''))"

text \<open>
  Well-formedness for streams of plain elements and text (no attributes, comments or
  empty-element tags): every end tag closes the element that was opened last, and no
  element stays open. \<open>stack\<close> holds the open elements; the second argument is the tag
  being read, if any.
\<close>

fun tagsNested :: "string list \<Rightarrow> string option \<Rightarrow> string \<Rightarrow> bool" where
  "tagsNested stack None [] = (stack = [])"
| "tagsNested stack (Some tag) [] = False"
| "tagsNested stack None (c # cs) =
     (if c = CHR ''<'' then tagsNested stack (Some []) cs
      else if c = CHR ''>'' then False
      else tagsNested stack None cs)"
| "tagsNested stack (Some tag) (c # cs) =
     (if c = CHR ''>'' then
        (case tag of
           [] \<Rightarrow> False
         | t # name \<Rightarrow>
             if t = CHR ''/'' then
               (case stack of
                  [] \<Rightarrow> False
                | opened # below \<Rightarrow> opened = name \<and> tagsNested below None cs)
             else tagsNested (tag # stack) None cs)
      else if c = CHR ''<'' then False
      else tagsNested stack (Some (tag @ [c])) cs)"

definition wellNested :: "string \<Rightarrow> bool" where
  "wellNested s = tagsNested [] None s"

text \<open>Timelines of the model, and what the encoder writes for their clips.\<close>

definition missingFile :: "Rate \<Rightarrow> File" where
  "missingFile rate =
     \<lparr>file_ID = ''file-file'', file_Name = [], PathURL = [], file_Rate = rate,
      file_Duration = 0\<rparr>"

definition encodedClipItem :: "Rate \<Rightarrow> string \<Rightarrow> 64 word \<Rightarrow> 64 word \<Rightarrow> ClipItem" where
  "encodedClipItem rate name s e =
     \<lparr>ci_ID = [], ci_Name = name, ci_Enabled = Some True, ci_Duration = e - s,
      ci_Rate = rate, ci_Start = s, ci_End = e, ci_In = 0, ci_Out = e - s,
      ci_File = Some (missingFile rate), ci_Sequence = None, ci_Filter = [], ci_Effect = [],
      ci_Marker = []\<rparr>"

definition gapTrack :: "float64 \<Rightarrow> otio_Track" where
  "gapTrack r =
     videoTrack
       [ClipChild (modelClip ''Clip 1'' (Some (MissingReference [] None)) 50 r),
        GapChild (modelGap 25 r),
        ClipChild (modelClip ''Clip 2'' (Some (MissingReference [] None)) 50 r)]"

definition gapTimeline :: otio_Timeline where
  "gapTimeline =
     \<lparr>timeline_name = ''Timeline with Gaps'', timeline_tracks = [TrackChild (gapTrack 24)]\<rparr>"

definition gapFirstTimeline :: otio_Timeline where
  "gapFirstTimeline =
     \<lparr>timeline_name = ''Gap first'',
      timeline_tracks =
        [TrackChild (videoTrack
           [GapChild (modelGap 10 30),
            ClipChild (modelClip ''Clip'' (Some (MissingReference [] None)) 50 30)])]\<rparr>"

definition palTimeline :: otio_Timeline where
  "palTimeline =
     \<lparr>timeline_name = ''PAL'',
      timeline_tracks =
        [TrackChild (videoTrack
           [ClipChild (modelClip ''Clip'' (Some (MissingReference [] None)) 50 25)])]\<rparr>"

definition slugReference :: MediaReference where
  "slugReference = GeneratorReference ''Slug'' ''Slug'' None"

definition bareSlugClip :: otio_Clip where
  "bareSlugClip =
     \<lparr>clip_name = ''Slug'', media_reference = Some slugReference, source_range = None,
      clip_metadata = [], clip_markers = [], clip_enabled = True\<rparr>"

definition flaggedSlugClip :: otio_Clip where
  "flaggedSlugClip =
     (modelClip ''Flagged'' (Some slugReference) 25 24)
       \<lparr>clip_metadata := [(''fcp7xml_generator'', AnyBool True)]\<rparr>"

definition mixedTrack :: otio_Track where
  "mixedTrack =
     videoTrack
       [ClipChild ((modelClip ''Off'' (Some (MissingReference [] None)) 50 24)\<lparr>clip_enabled := False\<rparr>),
        ClipChild flaggedSlugClip,
        ClipChild (modelClip ''Slug'' (Some slugReference) 50 24)]"

definition slugFile :: File where
  "slugFile =
     \<lparr>file_ID = ''file-Slug'', file_Name = ''Slug'', PathURL = [], file_Rate = rate24,
      file_Duration = 0\<rparr>"

text \<open>The specification in words: spaces become underscores, other foreign characters vanish.\<close>

definition sanitize_spec :: "string \<Rightarrow> string" where
  "sanitize_spec s =
     (let kept = filter (\<lambda>c. isIDRune c \<or> c = CHR '' '') s;
          result = map (\<lambda>c. if c = CHR '' '' then CHR ''_'' else c) kept
      in if result = [] then ''file'' else result)"

section \<open>Properties of \<open>sanitizeID\<close>\<close>

lemma isIDRune_space: "\<not> isIDRune (CHR '' '')"
  by (simp add: isIDRune_def)

lemma foldl_sanitizeStep:
  "foldl sanitizeStep acc s =
     acc @ map (\<lambda>c. if c = CHR '' '' then CHR ''_'' else c)
             (filter (\<lambda>c. isIDRune c \<or> c = CHR '' '') s)"
  by (induction s arbitrary: acc) (auto simp: sanitizeStep_def isIDRune_space)

text \<open>
  C8. \<open>sanitizeID\<close> returns \<open>file\<close> for the empty string, \<open>with_spaces\<close> for
  \<open>with spaces\<close> and \<open>withspecial\<close> for \<open>with!@#special\<close>; in general it turns every
  space into an underscore, removes every character that is not an ASCII letter, a digit,
  \<open>-\<close> or \<open>_\<close>, and replaces an empty result by \<open>file\<close>.
\<close>

theorem sanitizeID_spec:
  "sanitizeID [] = ''file''
   \<and> sanitizeID ''with spaces'' = ''with_spaces''
   \<and> sanitizeID ''with!@#special'' = ''withspecial''
   \<and> sanitizeID s = sanitize_spec s"
proof -
  have "sanitizeID [] = ''file''"
    by (simp add: sanitizeID_def)
  moreover have "sanitizeID ''with spaces'' = ''with_spaces''"
    by (simp add: sanitizeID_def sanitizeStep_def isIDRune_def)
  moreover have "sanitizeID ''with!@#special'' = ''withspecial''"
    by (simp add: sanitizeID_def sanitizeStep_def isIDRune_def)
  moreover have "sanitizeID s = sanitize_spec s"
    by (simp add: sanitizeID_def sanitize_spec_def foldl_sanitizeStep)
  ultimately show ?thesis
    by blast
qed

section \<open>Frame rates survive decoding and encoding\<close>

text \<open>
  The rounding at work: one tenth is the double \<open>3602879701896397 * 2^-55\<close>, a small
  integer is exact, and 30 * 1000 / 1001 is the double nearest to 29.97002997002997.
\<close>

lemma fl_tenth: "fl (1 / 10) = 3602879701896397 / 2 ^ 55"
  by code_simp

lemma fl_exact: "fl 24 = 24"
  by code_simp

lemma frameRate_30_ntsc:
  "rateToFrameRate \<lparr>Timebase = 30, NTSC = True\<rparr> = 1054476685978981 / 2 ^ 45"
  by code_simp

lemma reencode_24_ntsc: "reencodeRate \<lparr>Timebase = 24, NTSC = True\<rparr> = \<lparr>Timebase = 24, NTSC = True\<rparr>"
  by code_simp

lemma reencode_24: "reencodeRate \<lparr>Timebase = 24, NTSC = False\<rparr> = \<lparr>Timebase = 24, NTSC = False\<rparr>"
  by code_simp

lemma reencode_25: "reencodeRate \<lparr>Timebase = 25, NTSC = False\<rparr> = \<lparr>Timebase = 25, NTSC = False\<rparr>"
  by code_simp

lemma reencode_30_ntsc: "reencodeRate \<lparr>Timebase = 30, NTSC = True\<rparr> = \<lparr>Timebase = 30, NTSC = True\<rparr>"
  by code_simp

lemma reencode_30: "reencodeRate \<lparr>Timebase = 30, NTSC = False\<rparr> = \<lparr>Timebase = 30, NTSC = False\<rparr>"
  by code_simp

lemma reencode_50: "reencodeRate \<lparr>Timebase = 50, NTSC = False\<rparr> = \<lparr>Timebase = 50, NTSC = False\<rparr>"
  by code_simp

lemma reencode_60_ntsc: "reencodeRate \<lparr>Timebase = 60, NTSC = True\<rparr> = \<lparr>Timebase = 60, NTSC = True\<rparr>"
  by code_simp

lemma reencode_60: "reencodeRate \<lparr>Timebase = 60, NTSC = False\<rparr> = \<lparr>Timebase = 60, NTSC = False\<rparr>"
  by code_simp

text \<open>
  C2. For each canonical rate, decoding its (timebase, NTSC flag) pair to frames per
  second and encoding that value again (drop-frame when within 0.01 of a canonical NTSC
  value, timebase rounded from fps * 1001 / 1000 then, truncated from fps otherwise)
  gives the pair back.
\<close>

theorem canonical_rate_roundtrip:
  "\<forall>rate \<in> set canonicalRates.
     encoderRate (rateToFrameRate rate) (isNTSCRate (rateToFrameRate rate)) = rate"
  using reencode_24_ntsc reencode_24 reencode_25 reencode_30_ntsc reencode_30 reencode_50
    reencode_60_ntsc reencode_60
  by (simp add: canonicalRates_def reencodeRate_def Let_def)

theorem canonical_rate_roundtrip_witness:
  "\<lparr>Timebase = 30, NTSC = True\<rparr> \<in> set canonicalRates
   \<and> isNTSCRate (rateToFrameRate \<lparr>Timebase = 30, NTSC = True\<rparr>)
   \<and> encoderRate (rateToFrameRate \<lparr>Timebase = 30, NTSC = True\<rparr>) True
       = \<lparr>Timebase = 30, NTSC = True\<rparr>"
proof -
  have m: "\<lparr>Timebase = 30, NTSC = True\<rparr> \<in> set canonicalRates"
    by (simp add: canonicalRates_def)
  have n: "isNTSCRate (rateToFrameRate \<lparr>Timebase = 30, NTSC = True\<rparr>)"
    by code_simp
  from canonical_rate_roundtrip m
  have "encoderRate (rateToFrameRate \<lparr>Timebase = 30, NTSC = True\<rparr>)
          (isNTSCRate (rateToFrameRate \<lparr>Timebase = 30, NTSC = True\<rparr>))
        = \<lparr>Timebase = 30, NTSC = True\<rparr>"
    by blast
  with m n show ?thesis by simp
qed

section \<open>The sort of the decoder\<close>

lemma sortInner_selectMin:
  "length pre = i \<Longrightarrow> j = i + 1 + length seen \<Longrightarrow>
   sortInner i j (pre @ p # seen @ todo) =
     (let (m, todo') = selectMin p todo in pre @ m # seen @ todo')"
proof (induction todo arbitrary: p seen j)
  case Nil
  then show ?case by (subst sortInner.simps) simp
next
  case (Cons r rest)
  have j: "j < length (pre @ p # seen @ r # rest)" using Cons.prems by simp
  have at_j: "(pre @ p # seen @ r # rest) ! j = r"
    using Cons.prems by (simp add: nth_append)
  have at_i: "(pre @ p # seen @ r # rest) ! i = p"
    using Cons.prems by (simp add: nth_append)
  have sw: "swapItems i j (pre @ p # seen @ r # rest) = pre @ r # seen @ p # rest"
    using Cons.prems by (simp add: swapItems_def nth_append list_update_append)
  show ?case
  proof (cases "startKey r < startKey p")
    case True
    then have lt: "start r <s start p" by (simp add: startKey_def word_sless_alt)
    have "sortInner i j (pre @ p # seen @ r # rest)
          = sortInner i (j + 1) (pre @ r # (seen @ [p]) @ rest)"
      using j at_j at_i sw lt by (subst sortInner.simps) simp
    also have "\<dots> = (let (m, todo') = selectMin r rest in pre @ m # (seen @ [p]) @ todo')"
      using Cons.prems by (intro Cons.IH) simp_all
    finally show ?thesis using True by (simp add: split_def Let_def)
  next
    case False
    then have nlt: "\<not> start r <s start p" by (simp add: startKey_def word_sless_alt)
    have "sortInner i j (pre @ p # seen @ r # rest)
          = sortInner i (j + 1) (pre @ p # (seen @ [r]) @ rest)"
      using j at_j at_i nlt by (subst sortInner.simps) simp
    also have "\<dots> = (let (m, todo') = selectMin p rest in pre @ m # (seen @ [r]) @ todo')"
      using Cons.prems by (intro Cons.IH) simp_all
    finally show ?thesis using False by (simp add: split_def Let_def)
  qed
qed

lemma sortOuter_exchangeSort:
  "length pre = i \<Longrightarrow> sortOuter i (pre @ xs) = pre @ exchangeSort xs"
proof (induction xs arbitrary: pre i rule: length_induct)
  case (1 xs)
  show ?case
  proof (cases xs)
    case Nil
    then show ?thesis using 1 by (subst sortOuter.simps) simp
  next
    case (Cons p rest)
    show ?thesis
    proof (cases rest)
      case Nil
      then show ?thesis using 1 Cons by (subst sortOuter.simps) simp
    next
      case (Cons r rest')
      obtain m todo' where sel: "selectMin p rest = (m, todo')" by (cases "selectMin p rest")
      have len: "length todo' = length rest"
        using length_selectMin [of p rest] sel by simp
      have inner: "sortInner i (Suc i) (pre @ p # rest) = pre @ m # todo'"
        using sortInner_selectMin [of pre i "i + 1" "[]" p rest] 1(2) sel by simp
      have more: "Suc i < length (pre @ p # rest)"
        using 1(2) Cons by simp
      have "sortOuter i (pre @ p # rest) = sortOuter (i + 1) ((pre @ [m]) @ todo')"
        using more by (subst sortOuter.simps) (simp add: inner)
      also have "\<dots> = (pre @ [m]) @ exchangeSort todo'"
        using 1 \<open>xs = p # rest\<close> len by (intro 1(1)[rule_format]) simp_all
      finally show ?thesis using \<open>xs = p # rest\<close> sel by simp
    qed
  qed
qed

lemma sortByStart_exchangeSort: "sortByStart items = exchangeSort items"
  using sortOuter_exchangeSort [of "[]" 0 items] by (simp add: sortByStart_def)

lemma mset_selectMin:
  "selectMin p rest = (m, rest') \<Longrightarrow> mset (m # rest') = mset (p # rest)"
  by (induction rest arbitrary: p m rest') (auto simp: split_def Let_def split: if_splits prod.splits)

lemma selectMin_least:
  "selectMin p rest = (m, rest') \<Longrightarrow> \<forall>x \<in> set (p # rest). startKey m \<le> startKey x"
proof (induction rest arbitrary: p m rest')
  case Nil
  then show ?case by simp
next
  case (Cons r rest)
  show ?case
  proof (cases "startKey r < startKey p")
    case True
    obtain m1 t1 where rec: "selectMin r rest = (m1, t1)" by (cases "selectMin r rest")
    with Cons.prems True have "m = m1" by simp
    with Cons.IH [OF rec] True show ?thesis by fastforce
  next
    case False
    obtain m1 t1 where rec: "selectMin p rest = (m1, t1)" by (cases "selectMin p rest")
    with Cons.prems False have "m = m1" by simp
    with Cons.IH [OF rec] False show ?thesis by fastforce
  qed
qed

lemma mset_exchangeSort: "mset (exchangeSort xs) = mset xs"
proof (induction xs rule: length_induct)
  case (1 xs)
  show ?case
  proof (cases xs)
    case Nil then show ?thesis by simp
  next
    case (Cons p rest)
    obtain m rest' where sel: "selectMin p rest = (m, rest')" by (cases "selectMin p rest")
    have "length rest' = length rest" using length_selectMin [of p rest] sel by simp
    then have "mset (exchangeSort rest') = mset rest'" using 1 Cons by simp
    then show ?thesis using Cons sel mset_selectMin [OF sel] by simp
  qed
qed

lemma sorted_exchangeSort: "sorted (map startKey (exchangeSort xs))"
proof (induction xs rule: length_induct)
  case (1 xs)
  show ?case
  proof (cases xs)
    case Nil then show ?thesis by simp
  next
    case (Cons p rest)
    obtain m rest' where sel: "selectMin p rest = (m, rest')" by (cases "selectMin p rest")
    have len: "length rest' = length rest" using length_selectMin [of p rest] sel by simp
    then have srt: "sorted (map startKey (exchangeSort rest'))" using 1 Cons by simp
    have "set (exchangeSort rest') = set rest'"
      using mset_exchangeSort [of rest'] by (metis set_mset_mset)
    moreover have "set rest' \<subseteq> set (m # rest')" by auto
    moreover have "set (m # rest') = set (p # rest)"
      using mset_selectMin [OF sel] by (metis set_mset_mset)
    ultimately have "\<forall>x \<in> set (exchangeSort rest'). startKey m \<le> startKey x"
      using selectMin_least [OF sel] by blast
    then show ?thesis using Cons sel srt by simp
  qed
qed

lemma selectMin_sorted:
  "sorted (map startKey (p # rest)) \<Longrightarrow> selectMin p rest = (p, rest)"
  by (induction rest arbitrary: p) (auto simp: split_def Let_def)

lemma exchangeSort_sorted: "sorted (map startKey xs) \<Longrightarrow> exchangeSort xs = xs"
  by (induction xs) (auto simp: selectMin_sorted)

lemma sortByStart_mset: "mset (sortByStart items) = mset items"
  by (simp add: sortByStart_exchangeSort mset_exchangeSort)

lemma sortByStart_sorted: "sorted (map startKey (sortByStart items))"
  by (simp add: sortByStart_exchangeSort sorted_exchangeSort)

lemma sortByStart_distinct:
  assumes "distinct (map startKey items)"
  shows "sortByStart items = sort_key startKey items"
proof -
  have "inj_on startKey (set items)"
    using assms by (simp add: distinct_map)
  then have "sort_key startKey items = sortByStart items"
    by (intro sort_key_inj_key_eq) (simp_all add: sortByStart_mset sortByStart_sorted)
  then show ?thesis by simp
qed

lemma sortByStart_ordered:
  assumes "sorted (map startKey items)"
  shows "sortByStart items = sort_key startKey items"
  using assms by (simp add: sortByStart_exchangeSort exchangeSort_sorted sort_key_id_if_sorted)

section \<open>The decoder never fails on a parsed document\<close>

lemma decodeItem_total: "\<exists>c. decodeItem rate item = Inr c"
  by (cases "payload item")
     (simp_all add: decodeItem_def Decoder_convertClipItem_def Decoder_convertTransition_def
        Decoder_convertGenerator_def Let_def split: option.splits)

lemma name_decodeItem: "decodeItem rate item = Inr c \<Longrightarrow> composableName c = itemName item"
  by (cases "payload item")
     (auto simp: decodeItem_def itemName_def Decoder_convertClipItem_def
        Decoder_convertTransition_def Decoder_convertGenerator_def Let_def
        split: option.splits if_splits)

lemma convertItems_children:
  "\<exists>track'. convertItems rate i items track = Inr track'
     \<and> map Inr (track_children track') = map Inr (track_children track) @ map (decodeItem rate) items
     \<and> track_name track' = track_name track
     \<and> track_kind track' = track_kind track
     \<and> track_enabled track' = track_enabled track"
proof (induction items arbitrary: i track)
  case Nil
  then show ?case by simp
next
  case (Cons item rest)
  obtain c where c: "decodeItem rate item = Inr c"
    using decodeItem_total by blast
  let ?t = "track\<lparr>track_children := track_children track @ [c]\<rparr>"
  from Cons.IH [of "i + 1" ?t] obtain track' where
    "convertItems rate (i + 1) rest ?t = Inr track'"
    "map Inr (track_children track') = map Inr (track_children ?t) @ map (decodeItem rate) rest"
    "track_name track' = track_name ?t" "track_kind track' = track_kind ?t"
    "track_enabled track' = track_enabled ?t"
    by blast
  then show ?case
    using c by (cases "payload item") (simp_all add: decodeItem_def Track_AppendChild_def)
qed

lemma Decoder_convertTrack_children:
  "\<exists>track. Decoder_convertTrack fcpTrack rate kind index = Inr track
     \<and> map Inr (track_children track) = map (decodeItem rate) (sortByStart (collectItems fcpTrack))
     \<and> track_kind track = kind"
proof -
  let ?t0 = "\<lparr>track_name = kind @ '' '' @ showNat (index + 1), track_kind = kind,
              track_enabled = True, track_children = []\<rparr>"
  let ?t = "if t_Enabled fcpTrack = Some False then ?t0\<lparr>track_enabled := False\<rparr> else ?t0"
  from convertItems_children [of rate 0 "sortByStart (collectItems fcpTrack)" ?t]
  obtain track where
    "convertItems rate 0 (sortByStart (collectItems fcpTrack)) ?t = Inr track"
    "map Inr (track_children track)
       = map Inr (track_children ?t) @ map (decodeItem rate) (sortByStart (collectItems fcpTrack))"
    "track_kind track = track_kind ?t"
    by blast
  then show ?thesis
    by (simp add: Decoder_convertTrack_def Let_def split: if_splits)
qed

lemma children_names:
  assumes "map Inr children = map (decodeItem rate) items"
  shows "map composableName children = map itemName items"
  using assms
proof (induction items arbitrary: children)
  case Nil
  then show ?case by simp
next
  case (Cons item rest)
  then obtain c cs where "children = c # cs" by (cases children) auto
  with Cons show ?case by (auto simp: name_decodeItem)
qed

lemma tieTrack_sorted:
  "map itemName (sortByStart (collectItems tieTrack)) = [''slug'', ''dissolve'', ''clip'']"
  by (simp add: sortByStart_exchangeSort tieTrack_def collectItems_def plainClipItem_def
      dissolveItem_def slugItem_def startKey_def itemName_def)

lemma tieTrack_stable:
  "map itemName (sort_key startKey (collectItems tieTrack)) = [''slug'', ''clip'', ''dissolve'']"
  by (simp add: tieTrack_def collectItems_def plainClipItem_def
      dissolveItem_def slugItem_def startKey_def itemName_def)

lemma crossTrack_distinct: "distinct (map startKey (collectItems crossTrack))"
  by (simp add: crossTrack_def collectItems_def plainClipItem_def
      dissolveItem_def slugItem_def startKey_def)

lemma crossTrack_stable:
  "map itemName (sort_key startKey (collectItems crossTrack)) = [''a'', ''x'', ''b'']"
  by (simp add: crossTrack_def collectItems_def plainClipItem_def
      dissolveItem_def slugItem_def startKey_def itemName_def)

lemma orderedTrack_sorted: "sorted (map startKey (collectItems orderedTrack))"
  by (simp add: orderedTrack_def collectItems_def plainClipItem_def
      dissolveItem_def slugItem_def startKey_def)

lemma convertTrackList_total:
  "\<exists>timeline'. convertTrackList rate kind label i tracks timeline = Inr timeline'"
proof (induction tracks arbitrary: i timeline)
  case Nil
  then show ?case by simp
next
  case (Cons fcpTrack rest)
  obtain track where "Decoder_convertTrack fcpTrack rate kind i = Inr track"
    using Decoder_convertTrack_children by blast
  then show ?case
    using Cons.IH by (simp add: Stack_AppendChild_def)
qed

lemma Decoder_convertSequence_total: "\<exists>timeline. Decoder_convertSequence seq = Inr timeline"
proof -
  let ?t0 = "\<lparr>timeline_name = seq_Name seq, timeline_tracks = []\<rparr>"
  have "\<exists>t1. (case media_Video (seq_Media seq) of
                Some video \<Rightarrow>
                  convertTrackList (seq_Rate seq) TrackKindVideo ''video'' 0 (v_Track video) ?t0
              | None \<Rightarrow> Inr ?t0) = Inr t1"
    using convertTrackList_total by (cases "media_Video (seq_Media seq)") simp_all
  then obtain t1 where t1: "(case media_Video (seq_Media seq) of
                Some video \<Rightarrow>
                  convertTrackList (seq_Rate seq) TrackKindVideo ''video'' 0 (v_Track video) ?t0
              | None \<Rightarrow> Inr ?t0) = Inr t1" ..
  have "\<exists>t2. (case media_Audio (seq_Media seq) of
                Some audio \<Rightarrow>
                  convertTrackList (seq_Rate seq) TrackKindAudio ''audio'' 0 (a_Track audio) t1
              | None \<Rightarrow> Inr t1) = Inr t2"
    using convertTrackList_total by (cases "media_Audio (seq_Media seq)") simp_all
  then show ?thesis
    using t1 by (simp add: Decoder_convertSequence_def Let_def)
qed

lemma length_collectItems:
  "length (collectItems fcpTrack)
     = length (t_ClipItem fcpTrack) + length (t_TransitionItem fcpTrack)
       + length (t_GeneratorItem fcpTrack)"
  by (simp add: collectItems_def)

lemma length_sortByStart: "length (sortByStart items) = length items"
  using sortByStart_mset [of items] by (metis size_mset)

lemma nested_placeholder:
  assumes "ci_Sequence item = Some nested"
  shows "\<exists>clip. Decoder_convertClipItem item rate = Inr (ClipChild clip)
           \<and> clip_name clip = ci_Name item
           \<and> media_reference clip = Some (MissingReference [] None)
           \<and> map_of (clip_metadata clip) ''fcp7xml_nested_sequence'' = Some (AnyBool True)
           \<and> map_of (clip_metadata clip) ''fcp7xml_sequence_name'' = Some (AnyString (ns_Name nested))"
  using assms by (simp add: Decoder_convertClipItem_def Let_def)

text \<open>
  C1. For every decoded track the children are the concatenated clip, transition and
  generator items, rearranged into ascending order of start: the same items, each once,
  with starts that never decrease. This is the stable sort of the concatenation when
  the starts are pairwise distinct and when the concatenation is already in ascending
  order; otherwise items of equal start need not keep their order of concatenation.
\<close>

theorem decoded_track_order:
  "\<exists>track. Decoder_convertTrack fcpTrack rate kind index = Inr track
     \<and> map Inr (track_children track)
         = map (decodeItem rate) (sortByStart (collectItems fcpTrack))
     \<and> mset (sortByStart (collectItems fcpTrack)) = mset (collectItems fcpTrack)
     \<and> sorted (map startKey (sortByStart (collectItems fcpTrack)))
     \<and> (distinct (map startKey (collectItems fcpTrack)) \<longrightarrow>
          sortByStart (collectItems fcpTrack) = sort_key startKey (collectItems fcpTrack))
     \<and> (sorted (map startKey (collectItems fcpTrack)) \<longrightarrow>
          sortByStart (collectItems fcpTrack) = sort_key startKey (collectItems fcpTrack))"
  using Decoder_convertTrack_children [of fcpTrack rate kind index]
  by (auto simp: sortByStart_mset sortByStart_sorted sortByStart_distinct sortByStart_ordered)

theorem decoded_track_order_witness:
  "distinct (map startKey (collectItems crossTrack))
   \<and> sorted (map startKey (collectItems orderedTrack))
   \<and> map composableName
        (track_children (projr (Decoder_convertTrack crossTrack rate24 TrackKindVideo 0)))
       = [''a'', ''x'', ''b'']
   \<and> sortByStart (collectItems orderedTrack) = sort_key startKey (collectItems orderedTrack)"
proof -
  from decoded_track_order [of crossTrack rate24 TrackKindVideo 0] obtain track where
    t: "Decoder_convertTrack crossTrack rate24 TrackKindVideo 0 = Inr track"
    and c: "map Inr (track_children track)
              = map (decodeItem rate24) (sortByStart (collectItems crossTrack))"
    and d: "distinct (map startKey (collectItems crossTrack)) \<longrightarrow>
              sortByStart (collectItems crossTrack) = sort_key startKey (collectItems crossTrack)"
    by blast
  from d crossTrack_distinct
  have "sortByStart (collectItems crossTrack) = sort_key startKey (collectItems crossTrack)"
    by blast
  with c have "map composableName (track_children track) = [''a'', ''x'', ''b'']"
    using children_names crossTrack_stable by metis
  moreover from decoded_track_order [of orderedTrack rate24 TrackKindVideo 0] orderedTrack_sorted
  have "sortByStart (collectItems orderedTrack) = sort_key startKey (collectItems orderedTrack)"
    by blast
  ultimately show ?thesis
    using t crossTrack_distinct orderedTrack_sorted by simp
qed

theorem stable_order_counterexample:
  "map composableName
     (track_children (projr (Decoder_convertTrack tieTrack rate24 TrackKindVideo 0)))
     = [''slug'', ''dissolve'', ''clip'']
   \<and> map itemName (sort_key startKey (collectItems tieTrack)) = [''slug'', ''clip'', ''dissolve'']"
proof -
  from Decoder_convertTrack_children [of tieTrack rate24 TrackKindVideo 0] obtain track where
    t: "Decoder_convertTrack tieTrack rate24 TrackKindVideo 0 = Inr track"
    and c: "map Inr (track_children track)
              = map (decodeItem rate24) (sortByStart (collectItems tieTrack))"
    by blast
  from c have "map composableName (track_children track) = [''slug'', ''dissolve'', ''clip'']"
    using children_names tieTrack_sorted by metis
  with t tieTrack_stable show ?thesis by simp
qed

lemma Decode_cases:
  "Decode xmlDecode r =
     (case xmlDecode r of
        Inl cause \<Rightarrow> Inl (MalformedDocument cause)
      | Inr xmeml \<Rightarrow>
          (case x_Sequence xmeml of
             [] \<Rightarrow> Inl NoSequenceFound
           | first # siblings \<Rightarrow> Decoder_convertSequence first))"
  by (simp add: Decode_def split: sum.splits list.splits)


lemma Decoder_convertTrack_translated:
  "\<exists>track. Decoder_convertTrack fcpTrack rate kind index = Inr track
     \<and> translatedTrack rate kind (index, fcpTrack) track"
proof -
  let ?t0 = "\<lparr>track_name = kind @ '' '' @ showNat (index + 1), track_kind = kind,
              track_enabled = True, track_children = []\<rparr>"
  let ?t = "if t_Enabled fcpTrack = Some False then ?t0\<lparr>track_enabled := False\<rparr> else ?t0"
  from convertItems_children [of rate 0 "sortByStart (collectItems fcpTrack)" ?t]
  obtain track where
    "convertItems rate 0 (sortByStart (collectItems fcpTrack)) ?t = Inr track"
    "map Inr (track_children track)
       = map Inr (track_children ?t) @ map (decodeItem rate) (sortByStart (collectItems fcpTrack))"
    "track_name track = track_name ?t"
    "track_kind track = track_kind ?t"
    "track_enabled track = track_enabled ?t"
    by blast
  then show ?thesis
    by (simp add: Decoder_convertTrack_def translatedTrack_def Let_def split: if_splits)
qed

lemma convertTrackList_translated:
  "\<exists>tracks. convertTrackList rate kind label i fcpTracks timeline
       = Inr (timeline\<lparr>timeline_tracks := timeline_tracks timeline @ map TrackChild tracks\<rparr>)
     \<and> list_all2 (translatedTrack rate kind) (enumerate i fcpTracks) tracks"
proof (induction fcpTracks arbitrary: i timeline)
  case Nil
  then show ?case by simp
next
  case (Cons fcpTrack rest)
  obtain track where t: "Decoder_convertTrack fcpTrack rate kind i = Inr track"
    and tt: "translatedTrack rate kind (i, fcpTrack) track"
    using Decoder_convertTrack_translated by blast
  let ?tl = "timeline\<lparr>timeline_tracks := timeline_tracks timeline @ [TrackChild track]\<rparr>"
  from Cons.IH [of "i + 1" ?tl] obtain tracks where
    r: "convertTrackList rate kind label (i + 1) rest ?tl
          = Inr (?tl\<lparr>timeline_tracks := timeline_tracks ?tl @ map TrackChild tracks\<rparr>)"
    and l: "list_all2 (translatedTrack rate kind) (enumerate (i + 1) rest) tracks"
    by blast
  have "convertTrackList rate kind label i (fcpTrack # rest) timeline
          = Inr (timeline\<lparr>timeline_tracks := timeline_tracks timeline @ map TrackChild (track # tracks)\<rparr>)"
    using t r by (simp add: Stack_AppendChild_def)
  moreover have "list_all2 (translatedTrack rate kind) (enumerate i (fcpTrack # rest)) (track # tracks)"
    using tt l by simp
  ultimately show ?case by blast
qed

lemma Decoder_convertSequence_translated:
  "\<exists>videoTracks audioTracks.
      Decoder_convertSequence seq
        = Inr \<lparr>timeline_name = seq_Name seq,
               timeline_tracks = map TrackChild videoTracks @ map TrackChild audioTracks\<rparr>
      \<and> list_all2 (translatedTrack (seq_Rate seq) TrackKindVideo)
            (enumerate 0 (videoTracksOf seq)) videoTracks
      \<and> list_all2 (translatedTrack (seq_Rate seq) TrackKindAudio)
            (enumerate 0 (audioTracksOf seq)) audioTracks"
proof -
  let ?t0 = "\<lparr>timeline_name = seq_Name seq, timeline_tracks = []\<rparr>"
  have "\<exists>vts. (case media_Video (seq_Media seq) of
                Some video \<Rightarrow>
                  convertTrackList (seq_Rate seq) TrackKindVideo ''video'' 0 (v_Track video) ?t0
              | None \<Rightarrow> Inr ?t0) = Inr \<lparr>timeline_name = seq_Name seq, timeline_tracks = map TrackChild vts\<rparr>
          \<and> list_all2 (translatedTrack (seq_Rate seq) TrackKindVideo)
               (enumerate 0 (videoTracksOf seq)) vts"
  proof (cases "media_Video (seq_Media seq)")
    case None
    then show ?thesis by (simp add: videoTracksOf_def)
  next
    case (Some video)
    with convertTrackList_translated [of "seq_Rate seq" TrackKindVideo "''video''" 0 "v_Track video" ?t0]
    show ?thesis by (simp add: videoTracksOf_def)
  qed
  then obtain vts where
    v: "(case media_Video (seq_Media seq) of
                Some video \<Rightarrow>
                  convertTrackList (seq_Rate seq) TrackKindVideo ''video'' 0 (v_Track video) ?t0
              | None \<Rightarrow> Inr ?t0) = Inr \<lparr>timeline_name = seq_Name seq, timeline_tracks = map TrackChild vts\<rparr>"
    and vl: "list_all2 (translatedTrack (seq_Rate seq) TrackKindVideo)
               (enumerate 0 (videoTracksOf seq)) vts"
    by blast
  let ?t1 = "\<lparr>timeline_name = seq_Name seq, timeline_tracks = map TrackChild vts\<rparr>"
  have "\<exists>ats. (case media_Audio (seq_Media seq) of
                Some audio \<Rightarrow>
                  convertTrackList (seq_Rate seq) TrackKindAudio ''audio'' 0 (a_Track audio) ?t1
              | None \<Rightarrow> Inr ?t1)
              = Inr \<lparr>timeline_name = seq_Name seq,
                     timeline_tracks = map TrackChild vts @ map TrackChild ats\<rparr>
          \<and> list_all2 (translatedTrack (seq_Rate seq) TrackKindAudio)
               (enumerate 0 (audioTracksOf seq)) ats"
  proof (cases "media_Audio (seq_Media seq)")
    case None
    then show ?thesis by (simp add: audioTracksOf_def)
  next
    case (Some audio)
    with convertTrackList_translated [of "seq_Rate seq" TrackKindAudio "''audio''" 0 "a_Track audio" ?t1]
    show ?thesis by (simp add: audioTracksOf_def)
  qed
  then obtain ats where
    a: "(case media_Audio (seq_Media seq) of
                Some audio \<Rightarrow>
                  convertTrackList (seq_Rate seq) TrackKindAudio ''audio'' 0 (a_Track audio) ?t1
              | None \<Rightarrow> Inr ?t1)
              = Inr \<lparr>timeline_name = seq_Name seq,
                     timeline_tracks = map TrackChild vts @ map TrackChild ats\<rparr>"
    and al: "list_all2 (translatedTrack (seq_Rate seq) TrackKindAudio)
               (enumerate 0 (audioTracksOf seq)) ats"
    by blast
  have "Decoder_convertSequence seq
        = Inr \<lparr>timeline_name = seq_Name seq,
               timeline_tracks = map TrackChild vts @ map TrackChild ats\<rparr>"
    using v a by (simp add: Decoder_convertSequence_def Let_def)
  with vl al show ?thesis by blast
qed

lemma translatedTrack_keeps:
  assumes "translatedTrack rate kind (i, fcpTrack) track"
  shows "keepsEveryItem rate fcpTrack track"
proof -
  from assms have c: "map Inr (track_children track)
         = map (decodeItem rate) (sortByStart (collectItems fcpTrack))"
    by (simp add: translatedTrack_def)
  have "mset (map (decodeItem rate) (sortByStart (collectItems fcpTrack)))
          = mset (map (decodeItem rate) (collectItems fcpTrack))"
    using sortByStart_mset [of "collectItems fcpTrack"] by (metis mset_map)
  moreover from c have "length (track_children track) = length (sortByStart (collectItems fcpTrack))"
    by (metis length_map)
  ultimately show ?thesis
    using c by (simp add: keepsEveryItem_def length_sortByStart length_collectItems)
qed

lemma enumerate_keeps:
  assumes "list_all2 (translatedTrack rate kind) (enumerate i fcpTracks) tracks"
  shows "list_all2 (keepsEveryItem rate) fcpTracks tracks"
  using assms
proof (induction fcpTracks arbitrary: i tracks)
  case Nil
  then show ?case by simp
next
  case (Cons t rest)
  then obtain track others where "tracks = track # others"
    by (cases tracks) auto
  with Cons show ?case
    by (auto simp: translatedTrack_keeps)
qed

lemma sequenceTracks_split: "sequenceTracks seq = videoTracksOf seq @ audioTracksOf seq"
  by (simp add: sequenceTracks_def videoTracksOf_def audioTracksOf_def)



lemma exampleCodec_first:
  "exampleCodec firstOnlyStream
     = Inr \<lparr>Version = [], x_Sequence = [exampleSequence ''A'' [nestedTrack]]\<rparr>"
  by code_simp


lemma exampleCodec_mismatch:
  "exampleCodec mismatchStream = Inl (Err ''strconv.ParseInt: parsing abc: invalid syntax'')"
  by code_simp



lemma mismatchStream_nesting: "wellNested mismatchStream"
  by code_simp


lemma Decode_translated:
  assumes "xmlDecode r = Inr xmeml" and "x_Sequence xmeml = first # siblings"
  shows "\<exists>videoTracks audioTracks.
           Decode xmlDecode r
             = Inr \<lparr>timeline_name = seq_Name first,
                    timeline_tracks = map TrackChild videoTracks @ map TrackChild audioTracks\<rparr>
           \<and> list_all2 (translatedTrack (seq_Rate first) TrackKindVideo)
                 (enumerate 0 (videoTracksOf first)) videoTracks
           \<and> list_all2 (translatedTrack (seq_Rate first) TrackKindAudio)
                 (enumerate 0 (audioTracksOf first)) audioTracks"
proof -
  from assms have "Decode xmlDecode r = Decoder_convertSequence first"
    by (simp add: Decode_cases)
  with Decoder_convertSequence_translated [of first] show ?thesis
    by simp
qed


lemma exampleCodec_wrongRoot:
  "exampleCodec wrongRootStream = Inl (Err ''expected element type <xmeml> but have <invalid>'')"
  by code_simp

lemma Decode_keeps:
  assumes "xmlDecode r = Inr xmeml" and "x_Sequence xmeml = first # siblings"
  shows "\<exists>tracks. Decode xmlDecode r
             = Inr \<lparr>timeline_name = seq_Name first, timeline_tracks = map TrackChild tracks\<rparr>
           \<and> list_all2 (keepsEveryItem (seq_Rate first)) (sequenceTracks first) tracks"
proof -
  from Decode_translated [of xmlDecode r xmeml first siblings, OF assms] obtain vts ats where
    d: "Decode xmlDecode r
          = Inr \<lparr>timeline_name = seq_Name first,
                 timeline_tracks = map TrackChild vts @ map TrackChild ats\<rparr>"
    and v: "list_all2 (translatedTrack (seq_Rate first) TrackKindVideo)
              (enumerate 0 (videoTracksOf first)) vts"
    and a: "list_all2 (translatedTrack (seq_Rate first) TrackKindAudio)
              (enumerate 0 (audioTracksOf first)) ats"
    by blast
  from v a have "list_all2 (keepsEveryItem (seq_Rate first))
                   (videoTracksOf first @ audioTracksOf first) (vts @ ats)"
    by (intro list_all2_appendI) (rule enumerate_keeps, assumption)+
  with d show ?thesis
    by (intro exI [of _ "vts @ ats"]) (simp add: sequenceTracks_split)
qed

lemma Decoder_convertTrack_keeps:
  "\<exists>track. Decoder_convertTrack fcpTrack rate kind index = Inr track
      \<and> keepsEveryItem rate fcpTrack track"
  using Decoder_convertTrack_translated [of fcpTrack rate kind index] translatedTrack_keeps
  by blast

text \<open>
  C3. A field of a track item whose text does not fit the type of the field makes the
  XML codec fail, and with it the whole decode: \<open>Decode\<close> reports every failure of the
  codec as \<open>MalformedDocument\<close>. Once the codec has delivered a document with at least
  one sequence, decoding never fails, whatever the fields of the items hold: \<open>Decode\<close>
  fails only when the codec fails or the document has no sequence. No item is dropped:
  the returned timeline has one track for every track of the first sequence, video
  before audio, and the children of each are the translations of the clip, transition
  and generator items of that track, each item once, every translation made from the
  item and the rate of the sequence alone. A clip item that embeds a nested sequence
  becomes a placeholder clip with a missing reference and the metadata that marks it.
\<close>

theorem decode_keeps_every_item:
  "(xmlDecode r = Inl cause \<longrightarrow> Decode xmlDecode r = Inl (MalformedDocument cause))
   \<and> (xmlDecode r = Inr xmeml \<and> x_Sequence xmeml = first # siblings \<longrightarrow>
        (\<exists>tracks. Decode xmlDecode r
             = Inr \<lparr>timeline_name = seq_Name first, timeline_tracks = map TrackChild tracks\<rparr>
           \<and> list_all2 (keepsEveryItem (seq_Rate first)) (sequenceTracks first) tracks))
   \<and> (Decode xmlDecode r = Inl e \<longrightarrow>
        (\<exists>cause. xmlDecode r = Inl cause \<and> e = MalformedDocument cause)
        \<or> (\<exists>doc. xmlDecode r = Inr doc \<and> x_Sequence doc = [] \<and> e = NoSequenceFound))
   \<and> (\<exists>child. decodeItem rate item = Inr child)
   \<and> (\<exists>track. Decoder_convertTrack fcpTrack rate kind index = Inr track
        \<and> keepsEveryItem rate fcpTrack track)
   \<and> (ci_Sequence clipItem = Some nested \<longrightarrow>
        (\<exists>clip. Decoder_convertClipItem clipItem rate = Inr (ClipChild clip)
           \<and> clip_name clip = ci_Name clipItem
           \<and> media_reference clip = Some (MissingReference [] None)
           \<and> map_of (clip_metadata clip) ''fcp7xml_nested_sequence'' = Some (AnyBool True)
           \<and> map_of (clip_metadata clip) ''fcp7xml_sequence_name''
               = Some (AnyString (ns_Name nested))))"
proof -
  have aborted: "xmlDecode r = Inl cause \<longrightarrow> Decode xmlDecode r = Inl (MalformedDocument cause)"
    by (simp add: Decode_cases)
  have kept: "xmlDecode r = Inr xmeml \<and> x_Sequence xmeml = first # siblings \<longrightarrow>
        (\<exists>tracks. Decode xmlDecode r
             = Inr \<lparr>timeline_name = seq_Name first, timeline_tracks = map TrackChild tracks\<rparr>
           \<and> list_all2 (keepsEveryItem (seq_Rate first)) (sequenceTracks first) tracks)"
    using Decode_keeps [of xmlDecode r xmeml first siblings] by blast
  have only: "Decode xmlDecode r = Inl e \<longrightarrow>
        (\<exists>cause. xmlDecode r = Inl cause \<and> e = MalformedDocument cause)
        \<or> (\<exists>doc. xmlDecode r = Inr doc \<and> x_Sequence doc = [] \<and> e = NoSequenceFound)"
  proof
    assume failed: "Decode xmlDecode r = Inl e"
    show "(\<exists>cause. xmlDecode r = Inl cause \<and> e = MalformedDocument cause)
        \<or> (\<exists>doc. xmlDecode r = Inr doc \<and> x_Sequence doc = [] \<and> e = NoSequenceFound)"
    proof (cases "xmlDecode r")
      case (Inl cause)
      with failed show ?thesis by (simp add: Decode_cases)
    next
      case (Inr doc)
      show ?thesis
      proof (cases "x_Sequence doc")
        case Nil
        with failed Inr show ?thesis by (simp add: Decode_cases)
      next
        case (Cons first siblings)
        with failed Inr Decoder_convertSequence_total [of first] show ?thesis
          by (simp add: Decode_cases)
      qed
    qed
  qed
  from aborted kept only decodeItem_total [of rate item]
    Decoder_convertTrack_keeps [of fcpTrack rate kind index]
    nested_placeholder [of clipItem nested rate]
  show ?thesis
    by blast
qed

theorem decode_keeps_every_item_witness:
  "(\<exists>track. Decode exampleCodec firstOnlyStream
                 = Inr \<lparr>timeline_name = ''A'', timeline_tracks = [TrackChild track]\<rparr>
        \<and> keepsEveryItem rate24 nestedTrack track
        \<and> length (track_children track) = 2)
   \<and> Decode exampleCodec wrongRootStream
       = Inl (MalformedDocument (Err ''expected element type <xmeml> but have <invalid>''))
   \<and> isl (exampleCodec wrongRootStream)
   \<and> (\<exists>clip. Decoder_convertClipItem
          ((plainClipItem ''nested'' 0 50)\<lparr>ci_Sequence := Some \<lparr>ns_Name = ''Inner''\<rparr>\<rparr>) rate24
          = Inr (ClipChild clip)
        \<and> media_reference clip = Some (MissingReference [] None))"
proof -
  let ?A = "exampleSequence ''A'' [nestedTrack]"
  let ?one = "\<lparr>Version = [], x_Sequence = [?A]\<rparr>"
  let ?cause = "Err ''expected element type <xmeml> but have <invalid>''"
  let ?item = "(plainClipItem ''nested'' 0 50)\<lparr>ci_Sequence := Some \<lparr>ns_Name = ''Inner''\<rparr>\<rparr>"
  have h1: "exampleCodec firstOnlyStream = Inr ?one \<and> x_Sequence ?one = ?A # []"
    by (simp add: exampleCodec_first)
  note kept = decode_keeps_every_item [of exampleCodec firstOnlyStream _ ?one ?A "[]",
      THEN conjunct2, THEN conjunct1, THEN mp, OF h1]
  then obtain tracks where
    d: "Decode exampleCodec firstOnlyStream
          = Inr \<lparr>timeline_name = seq_Name ?A, timeline_tracks = map TrackChild tracks\<rparr>"
    and k: "list_all2 (keepsEveryItem (seq_Rate ?A)) (sequenceTracks ?A) tracks"
    by blast
  from k obtain track where t: "tracks = [track]" and kt: "keepsEveryItem rate24 nestedTrack track"
    by (auto simp: sequenceTracks_def exampleSequence_def list_all2_Cons1)
  from kt have "length (track_children track) = 2"
    by (simp add: keepsEveryItem_def nestedTrack_def)
  with d t kt have a: "\<exists>track. Decode exampleCodec firstOnlyStream
                 = Inr \<lparr>timeline_name = ''A'', timeline_tracks = [TrackChild track]\<rparr>
        \<and> keepsEveryItem rate24 nestedTrack track
        \<and> length (track_children track) = 2"
    by (simp add: exampleSequence_def)
  note aborted = decode_keeps_every_item [of exampleCodec wrongRootStream ?cause,
      THEN conjunct1, THEN mp, OF exampleCodec_wrongRoot]
  note only = decode_keeps_every_item [of exampleCodec wrongRootStream _ _ _ _
      "MalformedDocument ?cause",
      THEN conjunct2, THEN conjunct2, THEN conjunct1, THEN mp, OF aborted]
  then have c: "isl (exampleCodec wrongRootStream)"
    by (auto simp: MalformedDocument_def NoSequenceFound_def)
  have "ci_Sequence ?item = Some \<lparr>ns_Name = ''Inner''\<rparr>"
    by simp
  note placeholder = decode_keeps_every_item [where clipItem = ?item
        and nested = "\<lparr>ns_Name = ''Inner''\<rparr>" and rate = rate24,
      THEN conjunct2, THEN conjunct2, THEN conjunct2, THEN conjunct2, THEN conjunct2,
      THEN mp, OF this]
  then obtain clip where
    p: "Decoder_convertClipItem ?item rate24 = Inr (ClipChild clip)
        \<and> media_reference clip = Some (MissingReference [] None)"
    by (elim exE conjE) (rule that, rule conjI)
  then have e: "\<exists>clip. Decoder_convertClipItem ?item rate24 = Inr (ClipChild clip)
        \<and> media_reference clip = Some (MissingReference [] None)" ..
  from a aborted c e show ?thesis by (intro conjI)
qed

theorem field_mismatch_counterexample:
  "wellNested mismatchStream
   \<and> Decode exampleCodec mismatchStream
       = Inl (MalformedDocument (Err ''strconv.ParseInt: parsing abc: invalid syntax''))
   \<and> (\<exists>timeline. Decode exampleCodec firstOnlyStream = Inr timeline)"
proof -
  have "Decode exampleCodec mismatchStream
       = Inl (MalformedDocument (Err ''strconv.ParseInt: parsing abc: invalid syntax''))"
    by (simp add: Decode_cases exampleCodec_mismatch)
  moreover have "\<exists>timeline. Decode exampleCodec firstOnlyStream = Inr timeline"
    using Decoder_convertSequence_total [of "exampleSequence ''A'' [nestedTrack]"]
    by (simp add: Decode_cases exampleCodec_first)
  ultimately show ?thesis
    using mismatchStream_nesting by (intro conjI)
qed



section \<open>The encoder: what each converter writes\<close>

lemma convertMediaReference_file:
  "\<exists>file. Encoder_convertMediaReference env ref rate = Inr file
      \<and> file_ID file = ''file-'' @ sanitizeID (ref_name ref)
      \<and> file_Name file = ref_name ref
      \<and> file_Rate file = rate"
  by (cases ref)
     (simp_all add: Encoder_convertMediaReference_def Let_def split: option.splits sum.splits)

lemma convertMediaReference_unrecognized:
  assumes "\<forall>n u a. ref \<noteq> ExternalReference n u a"
  shows "Encoder_convertMediaReference env ref rate =
           Inr \<lparr>file_ID = ''file-'' @ sanitizeID (ref_name ref), file_Name = ref_name ref,
                PathURL = [], file_Rate = rate, file_Duration = 0\<rparr>"
  using assms by (cases ref) (simp_all add: Encoder_convertMediaReference_def Let_def)

lemma asBool_True: "asBool (map_of m k) = Some True \<longleftrightarrow> map_of m k = Some (AnyBool True)"
  by (cases "(map_of m k)" rule: asBool.cases) auto

lemma Clip_Duration_source: "source_range clip = Some sr \<Longrightarrow> Clip_Duration clip = Inr (range_duration sr)"
  by (simp add: Clip_Duration_def)

lemma Clip_Duration_fails:
  "isl (Clip_Duration clip) \<longleftrightarrow> source_range clip = None \<and> isl (Clip_AvailableRange clip)"
  by (auto simp: Clip_Duration_def split: option.splits sum.splits)

lemma convertClip_item:
  assumes "Encoder_convertClip env clip rate pos = Inr ci"
  shows "ci_Rate ci = rate \<and> ci_Enabled ci = Some (clip_enabled clip)
         \<and> ci_Name ci = clip_name clip \<and> ci_Start ci = pos
         \<and> (\<forall>f. ci_File ci = Some f \<longrightarrow> file_Rate f = rate)
         \<and> (\<forall>ref. media_reference clip = Some ref \<longrightarrow>
               Inr (the (ci_File ci)) = Encoder_convertMediaReference env ref rate
               \<and> ci_File ci \<noteq> None)"
proof -
  from assms obtain sr where
    sr: "(case source_range clip of
              Some sr \<Rightarrow> Inr sr
            | None \<Rightarrow>
                (case Clip_AvailableRange clip of
                   Inl err \<Rightarrow> Inl (Wrap ''failed to get available range'' err)
                 | Inr ar \<Rightarrow> Inr ar)) = Inr sr"
    by (auto simp: Encoder_convertClip_def split: sum.splits)
  show ?thesis
  proof (cases "media_reference clip")
    case None
    with assms sr show ?thesis
      by (auto simp: Encoder_convertClip_def Let_def split: option.splits)
  next
    case (Some ref)
    obtain written where f: "Encoder_convertMediaReference env ref rate = Inr written"
      "file_Rate written = rate"
      using convertMediaReference_file by blast
    with assms sr Some show ?thesis
      by (auto simp: Encoder_convertClip_def Let_def split: option.splits)
  qed
qed

lemma convertClip_returns:
  "(\<exists>ci. Encoder_convertClip env clip rate pos = Inr ci)
     \<longleftrightarrow> \<not> isl (Clip_Duration clip)"
proof (cases "media_reference clip")
  case None
  then show ?thesis
    by (auto simp: Encoder_convertClip_def Clip_Duration_def Clip_AvailableRange_def Let_def
        split: option.splits sum.splits)
next
  case (Some ref)
  obtain written where "Encoder_convertMediaReference env ref rate = Inr written"
    using convertMediaReference_file by blast
  with Some show ?thesis
    by (auto simp: Encoder_convertClip_def Clip_Duration_def Clip_AvailableRange_def Let_def
        split: option.splits sum.splits)
qed

lemma convertClip_error:
  assumes "Encoder_convertClip env clip rate pos = Inl e"
  shows "e = Wrap ''failed to get available range'' DurationUnavailable"
proof (cases "media_reference clip")
  case None
  with assms show ?thesis
    by (auto simp: Encoder_convertClip_def Clip_AvailableRange_def Let_def
        split: option.splits sum.splits)
next
  case (Some ref)
  obtain written where "Encoder_convertMediaReference env ref rate = Inr written"
    using convertMediaReference_file by blast
  with assms Some show ?thesis
    by (auto simp: Encoder_convertClip_def Clip_AvailableRange_def Let_def
        split: option.splits sum.splits)
qed

lemma convertToGenerator_Some:
  assumes "Encoder_convertToGenerator clip rate pos = Some g"
  shows "isGeneratorClip clip \<and> \<not> isl (Clip_Duration clip)
         \<and> gi_Rate g = rate \<and> gi_Enabled g = Some (clip_enabled clip)
         \<and> gi_Name g = clip_name clip \<and> gi_Start g = pos"
proof -
  from assms have flag: "asBool (map_of (clip_metadata clip) ''fcp7xml_generator'') = Some True"
    by (auto simp: Encoder_convertToGenerator_def Let_def split: option.splits if_splits)
  from assms flag obtain dur where dur: "Clip_Duration clip = Inr dur"
    by (auto simp: Encoder_convertToGenerator_def Let_def split: sum.splits)
  from assms flag dur show ?thesis
    by (auto simp: Encoder_convertToGenerator_def isGeneratorClip_def asBool_True Let_def
        split_def split: option.splits)
qed

lemma convertToGenerator_None:
  "Encoder_convertToGenerator clip rate pos = None
     \<longleftrightarrow> \<not> isGeneratorClip clip \<or> isl (Clip_Duration clip)"
proof (cases "asBool (map_of (clip_metadata clip) ''fcp7xml_generator'')")
  case None
  then have "\<not> isGeneratorClip clip"
    using asBool_True [of "clip_metadata clip" "''fcp7xml_generator''"]
    by (simp add: isGeneratorClip_def)
  with None show ?thesis
    by (simp add: Encoder_convertToGenerator_def Let_def)
next
  case (Some isGen)
  then have "isGeneratorClip clip \<longleftrightarrow> isGen"
    using asBool_True [of "clip_metadata clip" "''fcp7xml_generator''"]
    by (auto simp: isGeneratorClip_def)
  with Some show ?thesis
    by (cases "Clip_Duration clip")
       (simp_all add: Encoder_convertToGenerator_def Let_def split_def)
qed

lemma convertTransitionToItem_item:
  "\<exists>ti. Encoder_convertTransitionToItem t rate pos = Inr ti
      \<and> ti_Rate ti = rate \<and> ti_Name ti = transition_name t \<and> ti_Start ti = pos"
  by (simp add: Encoder_convertTransitionToItem_def Let_def split: option.splits)

section \<open>The encoder: a track and its items\<close>

text \<open>
  What a successful run of the loop adds to the track: in order, one clip item for each
  unflagged clip, one generator item for each flagged clip, one transition item for each
  transition, and nothing else.
\<close>

lemma convertChildren_items:
  assumes "convertChildren env rate children fcpTrack pos = Inr out"
  shows "t_Enabled out = t_Enabled fcpTrack
     \<and> (\<exists>cis. t_ClipItem out = t_ClipItem fcpTrack @ cis
           \<and> list_all2 (\<lambda>c ci. \<exists>p. Encoder_convertClip env c rate p = Inr ci)
                (filter (\<lambda>c. \<not> isGeneratorClip c) (clipsOf children)) cis)
     \<and> (\<exists>gis. t_GeneratorItem out = t_GeneratorItem fcpTrack @ gis
           \<and> list_all2 (\<lambda>c g. \<exists>p. Encoder_convertToGenerator c rate p = Some g)
                (filter isGeneratorClip (clipsOf children)) gis)
     \<and> (\<exists>tis. t_TransitionItem out = t_TransitionItem fcpTrack @ tis
           \<and> list_all2 (\<lambda>t ti. \<exists>p. Encoder_convertTransitionToItem t rate p = Inr ti)
                (transitionsOf children) tis)"
  using assms
proof (induction children arbitrary: fcpTrack pos)
  case Nil
  then show ?case by simp
next
  case (Cons child rest)
  show ?case
  proof (cases child)
    case (ClipChild c)
    from Cons.prems ClipChild obtain dur where dur: "Clip_Duration c = Inr dur"
      by (cases "Clip_Duration c") (auto split: option.splits sum.splits)
    show ?thesis
    proof (cases "Encoder_convertToGenerator c rate pos")
      case None
      with dur have flag: "\<not> isGeneratorClip c"
        using convertToGenerator_None [of c rate pos] by simp
      from Cons.prems ClipChild None obtain ci where ci: "Encoder_convertClip env c rate pos = Inr ci"
        by (cases "Encoder_convertClip env c rate pos") auto
      let ?t = "fcpTrack\<lparr>t_ClipItem := t_ClipItem fcpTrack @ [ci]\<rparr>"
      from Cons.prems ClipChild None ci dur
      have "convertChildren env rate rest ?t (pos + toInt64 (rt_value dur)) = Inr out"
        by simp
      from Cons.IH [OF this] obtain cis gis tis where
        "t_Enabled out = t_Enabled ?t"
        "t_ClipItem out = t_ClipItem ?t @ cis"
        "list_all2 (\<lambda>c ci. \<exists>p. Encoder_convertClip env c rate p = Inr ci)
           (filter (\<lambda>c. \<not> isGeneratorClip c) (clipsOf rest)) cis"
        "t_GeneratorItem out = t_GeneratorItem ?t @ gis"
        "list_all2 (\<lambda>c g. \<exists>p. Encoder_convertToGenerator c rate p = Some g)
           (filter isGeneratorClip (clipsOf rest)) gis"
        "t_TransitionItem out = t_TransitionItem ?t @ tis"
        "list_all2 (\<lambda>t ti. \<exists>p. Encoder_convertTransitionToItem t rate p = Inr ti)
           (transitionsOf rest) tis"
        by blast
      moreover from ci have "\<exists>p. Encoder_convertClip env c rate p = Inr ci" ..
      ultimately show ?thesis
        using ClipChild flag by simp
    next
      case (Some g)
      then have flag: "isGeneratorClip c"
        using convertToGenerator_Some by blast
      let ?t = "fcpTrack\<lparr>t_GeneratorItem := t_GeneratorItem fcpTrack @ [g]\<rparr>"
      from Cons.prems ClipChild Some dur
      have "convertChildren env rate rest ?t (pos + toInt64 (rt_value dur)) = Inr out"
        by simp
      from Cons.IH [OF this] obtain cis gis tis where
        "t_Enabled out = t_Enabled ?t"
        "t_ClipItem out = t_ClipItem ?t @ cis"
        "list_all2 (\<lambda>c ci. \<exists>p. Encoder_convertClip env c rate p = Inr ci)
           (filter (\<lambda>c. \<not> isGeneratorClip c) (clipsOf rest)) cis"
        "t_GeneratorItem out = t_GeneratorItem ?t @ gis"
        "list_all2 (\<lambda>c g. \<exists>p. Encoder_convertToGenerator c rate p = Some g)
           (filter isGeneratorClip (clipsOf rest)) gis"
        "t_TransitionItem out = t_TransitionItem ?t @ tis"
        "list_all2 (\<lambda>t ti. \<exists>p. Encoder_convertTransitionToItem t rate p = Inr ti)
           (transitionsOf rest) tis"
        by blast
      moreover from Some have "\<exists>p. Encoder_convertToGenerator c rate p = Some g" ..
      ultimately show ?thesis
        using ClipChild flag by simp
    qed
  next
    case (TransitionChild t)
    obtain ti where ti: "Encoder_convertTransitionToItem t rate pos = Inr ti"
      using convertTransitionToItem_item by blast
    let ?t = "fcpTrack\<lparr>t_TransitionItem := t_TransitionItem fcpTrack @ [ti]\<rparr>"
    from Cons.prems TransitionChild ti
    have "convertChildren env rate rest ?t
            (pos + toInt64 (rt_value (RationalTime_Add (in_offset t) (out_offset t)))) = Inr out"
      by (simp add: Let_def)
    from Cons.IH [OF this] obtain cis gis tis where
      "t_Enabled out = t_Enabled ?t"
      "t_ClipItem out = t_ClipItem ?t @ cis"
      "list_all2 (\<lambda>c ci. \<exists>p. Encoder_convertClip env c rate p = Inr ci)
         (filter (\<lambda>c. \<not> isGeneratorClip c) (clipsOf rest)) cis"
      "t_GeneratorItem out = t_GeneratorItem ?t @ gis"
      "list_all2 (\<lambda>c g. \<exists>p. Encoder_convertToGenerator c rate p = Some g)
         (filter isGeneratorClip (clipsOf rest)) gis"
      "t_TransitionItem out = t_TransitionItem ?t @ tis"
      "list_all2 (\<lambda>t ti. \<exists>p. Encoder_convertTransitionToItem t rate p = Inr ti)
         (transitionsOf rest) tis"
      by blast
    moreover from ti have "\<exists>p. Encoder_convertTransitionToItem t rate p = Inr ti" ..
    ultimately show ?thesis
      using TransitionChild by simp
  next
    case (GapChild g)
    from Cons.prems GapChild obtain dur where "Gap_Duration g = Inr dur"
      by (cases "Gap_Duration g") auto
    with Cons.prems GapChild
    have "convertChildren env rate rest fcpTrack (pos + toInt64 (rt_value dur)) = Inr out"
      by simp
    from Cons.IH [OF this] show ?thesis
      using GapChild by simp
  next
    case (OtherChild n)
    with Cons.prems have "convertChildren env rate rest fcpTrack pos = Inr out"
      by simp
    from Cons.IH [OF this] show ?thesis
      using OtherChild by simp
  qed
qed

lemma convertChildren_total:
  assumes "list_all childHasRange children"
  shows "\<exists>out. convertChildren env rate children fcpTrack pos = Inr out"
  using assms
proof (induction children arbitrary: fcpTrack pos)
  case Nil
  then show ?case by simp
next
  case (Cons child rest)
  then have rest: "list_all childHasRange rest" by simp
  show ?case
  proof (cases child)
    case (ClipChild c)
    with Cons.prems obtain sr where sr: "source_range c = Some sr"
      by (auto simp: childHasRange_def)
    then have dur: "Clip_Duration c = Inr (range_duration sr)"
      by (rule Clip_Duration_source)
    show ?thesis
    proof (cases "Encoder_convertToGenerator c rate pos")
      case None
      from dur obtain ci where "Encoder_convertClip env c rate pos = Inr ci"
        using convertClip_returns [of env c rate pos] by auto
      with ClipChild None dur Cons.IH [OF rest] show ?thesis by simp
    next
      case (Some g)
      with ClipChild dur Cons.IH [OF rest] show ?thesis by simp
    qed
  next
    case (TransitionChild t)
    obtain ti where "Encoder_convertTransitionToItem t rate pos = Inr ti"
      using convertTransitionToItem_item by blast
    with TransitionChild Cons.IH [OF rest] show ?thesis by (simp add: Let_def)
  next
    case (GapChild g)
    with Cons.prems obtain sr where "gap_source_range g = Some sr"
      by (auto simp: childHasRange_def)
    with GapChild Cons.IH [OF rest] show ?thesis by (simp add: Gap_Duration_def)
  next
    case (OtherChild n)
    with Cons.IH [OF rest] show ?thesis by simp
  qed
qed

lemma Encoder_convertTrack_items:
  assumes "Encoder_convertTrack env track rate = Inr fcpTrack"
  shows "t_Enabled fcpTrack = Some (track_enabled track)
     \<and> list_all2 (\<lambda>c ci. \<exists>p. Encoder_convertClip env c rate p = Inr ci)
          (filter (\<lambda>c. \<not> isGeneratorClip c) (clipsOf (track_children track))) (t_ClipItem fcpTrack)
     \<and> list_all2 (\<lambda>c g. \<exists>p. Encoder_convertToGenerator c rate p = Some g)
          (filter isGeneratorClip (clipsOf (track_children track))) (t_GeneratorItem fcpTrack)
     \<and> list_all2 (\<lambda>t ti. \<exists>p. Encoder_convertTransitionToItem t rate p = Inr ti)
          (transitionsOf (track_children track)) (t_TransitionItem fcpTrack)"
  using convertChildren_items [OF assms [unfolded Encoder_convertTrack_def Let_def]]
  by simp

lemma Encoder_convertTrack_total:
  assumes "list_all childHasRange (track_children track)"
  shows "\<exists>fcpTrack. Encoder_convertTrack env track rate = Inr fcpTrack"
  using convertChildren_total [OF assms] by (simp add: Encoder_convertTrack_def Let_def)

lemma list_all2_source:
  assumes "list_all2 P xs ys" and "y \<in> set ys"
  shows "\<exists>x \<in> set xs. P x y"
  using assms by (induction rule: list_all2_induct) auto

lemma Encoder_convertTrack_rates:
  assumes "Encoder_convertTrack env track rate = Inr fcpTrack"
  shows "(\<forall>ci \<in> set (t_ClipItem fcpTrack).
            ci_Rate ci = rate \<and> (\<forall>f. ci_File ci = Some f \<longrightarrow> file_Rate f = rate))
       \<and> (\<forall>ti \<in> set (t_TransitionItem fcpTrack). ti_Rate ti = rate)
       \<and> (\<forall>g \<in> set (t_GeneratorItem fcpTrack). gi_Rate g = rate)"
proof -
  note items = Encoder_convertTrack_items [OF assms]
  have "ci_Rate ci = rate \<and> (\<forall>f. ci_File ci = Some f \<longrightarrow> file_Rate f = rate)"
    if "ci \<in> set (t_ClipItem fcpTrack)" for ci
  proof -
    from items that obtain c p where "Encoder_convertClip env c rate p = Inr ci"
      using list_all2_source [of _ _ "t_ClipItem fcpTrack" ci] by blast
    then show ?thesis using convertClip_item by blast
  qed
  moreover have "ti_Rate ti = rate" if "ti \<in> set (t_TransitionItem fcpTrack)" for ti
  proof -
    from items that obtain t p where "Encoder_convertTransitionToItem t rate p = Inr ti"
      using list_all2_source [of _ _ "t_TransitionItem fcpTrack" ti] by blast
    then show ?thesis using convertTransitionToItem_item [of t rate p] by auto
  qed
  moreover have "gi_Rate g = rate" if "g \<in> set (t_GeneratorItem fcpTrack)" for g
  proof -
    from items that obtain c p where "Encoder_convertToGenerator c rate p = Some g"
      using list_all2_source [of _ _ "t_GeneratorItem fcpTrack" g] by blast
    then show ?thesis using convertToGenerator_Some by blast
  qed
  ultimately show ?thesis by blast
qed

section \<open>The encoder: the sequence\<close>

lemma encodeTrackList_tracks:
  assumes "encodeTrackList env rate label tracks fcpTracks = Inr out"
  shows "\<exists>new. out = fcpTracks @ new
           \<and> list_all2 (\<lambda>t ft. Encoder_convertTrack env t rate = Inr ft) tracks new"
  using assms
proof (induction tracks arbitrary: fcpTracks)
  case Nil
  then show ?case by simp
next
  case (Cons track rest)
  from Cons.prems obtain ft where ft: "Encoder_convertTrack env track rate = Inr ft"
    by (cases "Encoder_convertTrack env track rate") auto
  with Cons.prems have "encodeTrackList env rate label rest (fcpTracks @ [ft]) = Inr out"
    by simp
  from Cons.IH [OF this] obtain new where
    "out = (fcpTracks @ [ft]) @ new"
    "list_all2 (\<lambda>t ft. Encoder_convertTrack env t rate = Inr ft) rest new"
    by blast
  with ft show ?case by simp
qed

lemma Encoder_convertTracks_sequence:
  assumes "Encoder_convertTracks env timeline frameRate isNTSC = Inr seq"
  shows "seq_Rate seq = encoderRate frameRate isNTSC
     \<and> (\<forall>ft \<in> set (sequenceTracks seq).
           \<exists>track. Encoder_convertTrack env track (encoderRate frameRate isNTSC) = Inr ft)"
proof -
  let ?rate = "encoderRate frameRate isNTSC"
  from assms obtain d where d: "timelineDuration env timeline = Inr d"
    by (cases "timelineDuration env timeline") (auto simp: Encoder_convertTracks_def Let_def)
  from assms d obtain vs where vs: "encodeTrackList env ?rate ''video'' (VideoTracks timeline) [] = Inr vs"
    by (cases "encodeTrackList env ?rate ''video'' (VideoTracks timeline) []")
       (auto simp: Encoder_convertTracks_def Let_def)
  from assms d vs obtain as where as: "encodeTrackList env ?rate ''audio'' (AudioTracks timeline) [] = Inr as"
    by (cases "encodeTrackList env ?rate ''audio'' (AudioTracks timeline) []")
       (auto simp: Encoder_convertTracks_def Let_def)
  from assms d vs as have rate: "seq_Rate seq = ?rate" and tracks: "sequenceTracks seq = vs @ as"
    by (auto simp: Encoder_convertTracks_def Let_def sequenceTracks_def split: if_splits)
  have "\<exists>track. Encoder_convertTrack env track ?rate = Inr ft" if "ft \<in> set (vs @ as)" for ft
    using that encodeTrackList_tracks [OF vs] encodeTrackList_tracks [OF as]
      list_all2_source [of "\<lambda>t ft. Encoder_convertTrack env t ?rate = Inr ft" _ vs ft]
      list_all2_source [of "\<lambda>t ft. Encoder_convertTrack env t ?rate = Inr ft" _ as ft]
    by auto
  with rate tracks show ?thesis by simp
qed

lemma findFrameRate_leading:
  "findFrameRate children =
     (case List.map_filter leadingClipRate children of r # others \<Rightarrow> Some r | [] \<Rightarrow> None)"
proof (induction children)
  case Nil
  then show ?case by (simp add: List.map_filter_simps)
next
  case (Cons child rest)
  show ?case
  proof (cases child)
    case (TrackChild track)
    show ?thesis
    proof (cases "track_children track")
      case Nil
      with TrackChild Cons show ?thesis
        by (simp add: List.map_filter_simps leadingClipRate_def)
    next
      case (Cons first others)
      with TrackChild Cons.IH show ?thesis
        by (cases first)
           (auto simp: List.map_filter_simps leadingClipRate_def split: sum.splits)
    qed
  next
    case (ItemChild other)
    with Cons show ?thesis
      by (simp add: List.map_filter_simps leadingClipRate_def)
  qed
qed

lemma encoderRate_default: "encoderRate 24 False = \<lparr>Timebase = 24, NTSC = False\<rparr>"
  by (simp add: encoderRate_def truncToInt_def)

lemma Encoder_convertTimeline_sequence:
  assumes "Encoder_convertTimeline env timeline = Inr xmeml"
  shows "\<exists>seq. xmeml = \<lparr>Version = ''5'', x_Sequence = [seq]\<rparr>
           \<and> Encoder_convertTracks env timeline
                (case findFrameRate (timeline_tracks timeline) of Some r \<Rightarrow> r | None \<Rightarrow> 24)
                (case findFrameRate (timeline_tracks timeline) of Some r \<Rightarrow> isNTSCRate r | None \<Rightarrow> False)
               = Inr seq
           \<and> seq_Rate seq = workingRate timeline"
proof (cases "findFrameRate (timeline_tracks timeline)")
  case None
  with assms obtain seq where seq: "Encoder_convertTracks env timeline 24 False = Inr seq"
    "xmeml = \<lparr>Version = ''5'', x_Sequence = [seq]\<rparr>"
    by (cases "Encoder_convertTracks env timeline 24 False")
       (auto simp: Encoder_convertTimeline_def)
  from None have "workingRate timeline = \<lparr>Timebase = 24, NTSC = False\<rparr>"
    by (simp add: workingRate_def findFrameRate_leading split: list.splits)
  with seq None Encoder_convertTracks_sequence [OF seq(1)] show ?thesis
    by (simp add: encoderRate_default)
next
  case (Some r)
  with assms obtain seq where seq: "Encoder_convertTracks env timeline r (isNTSCRate r) = Inr seq"
    "xmeml = \<lparr>Version = ''5'', x_Sequence = [seq]\<rparr>"
    by (cases "Encoder_convertTracks env timeline r (isNTSCRate r)")
       (auto simp: Encoder_convertTimeline_def)
  from Some have "workingRate timeline = encoderRate r (isNTSCRate r)"
    by (simp add: workingRate_def findFrameRate_leading split: list.splits)
  with seq Some Encoder_convertTracks_sequence [OF seq(1)] show ?thesis
    by simp
qed

lemma isNTSCRate_24: "isNTSCRate 24 = False"
  by code_simp

lemma isNTSCRate_25: "isNTSCRate 25 = False"
  by code_simp

lemma gapTrack_encoded:
  "Encoder_convertTrack env (gapTrack r) rate =
     Inr \<lparr>t_Enabled = Some True,
          t_ClipItem = [encodedClipItem rate ''Clip 1'' 0 50, encodedClipItem rate ''Clip 2'' 75 125],
          t_TransitionItem = [], t_GeneratorItem = []\<rparr>"
  by (simp add: Encoder_convertTrack_def gapTrack_def videoTrack_def modelClip_def modelGap_def
      Encoder_convertToGenerator_def Encoder_convertClip_def Encoder_convertMediaReference_def
      Clip_Duration_def Gap_Duration_def NewTimeRange_def NewRationalTime_def frames_def
      toInt64_def truncToInt_def sanitizeID_def encodedClipItem_def missingFile_def Let_def)

lemma gapTimeline_rate: "findFrameRate (timeline_tracks gapTimeline) = Some 24"
  by (simp add: gapTimeline_def gapTrack_def videoTrack_def modelClip_def Clip_Duration_def
      NewTimeRange_def NewRationalTime_def frames_def)

lemma gapTimeline_tracks:
  "VideoTracks gapTimeline = [gapTrack 24]" "AudioTracks gapTimeline = []"
  by (simp_all add: VideoTracks_def AudioTracks_def gapTimeline_def gapTrack_def videoTrack_def
      TrackKindVideo_def TrackKindAudio_def)

text \<open>
  C5. Encoding a track whose children are a 50-frame clip, a 25-frame gap and a second
  50-frame clip gives a track with exactly two clip items and nothing for the gap, the
  second clip item starting at 75: a gap moves the cursor on by its duration and emits
  no element.
\<close>

theorem gap_elision:
  "Encoder_convertTrack env (gapTrack r) rate =
     Inr \<lparr>t_Enabled = Some True,
          t_ClipItem = [encodedClipItem rate ''Clip 1'' 0 50, encodedClipItem rate ''Clip 2'' 75 125],
          t_TransitionItem = [], t_GeneratorItem = []\<rparr>
   \<and> ci_Start (encodedClipItem rate ''Clip 1'' 0 50) = 0
   \<and> ci_Start (encodedClipItem rate ''Clip 2'' 75 125) = 75
   \<and> Encoder_convertTimeline (env\<lparr>timelineDuration := \<lambda>tl. Inr d\<rparr>) gapTimeline =
       Inr \<lparr>Version = ''5'',
            x_Sequence =
              [\<lparr>seq_Name = ''Timeline with Gaps'', seq_Duration = toInt64 (rt_value d),
                seq_Rate = rate24,
                seq_Media =
                  \<lparr>media_Video = Some \<lparr>v_Track =
                     [\<lparr>t_Enabled = Some True,
                       t_ClipItem = [encodedClipItem rate24 ''Clip 1'' 0 50,
                                     encodedClipItem rate24 ''Clip 2'' 75 125],
                       t_TransitionItem = [], t_GeneratorItem = []\<rparr>]\<rparr>,
                   media_Audio = None\<rparr>\<rparr>]\<rparr>
   \<and> convertChildren env rate (GapChild gap # rest) fcpTrack pos =
       (case Gap_Duration gap of
          Inl err \<Rightarrow> Inl (Wrap ''failed to get gap duration'' err)
        | Inr dur \<Rightarrow> convertChildren env rate rest fcpTrack (pos + toInt64 (rt_value dur)))"
proof -
  have rate: "encoderRate 24 False = rate24"
    by (simp add: encoderRate_default rate24_def)
  have "Encoder_convertTimeline (env\<lparr>timelineDuration := \<lambda>tl. Inr d\<rparr>) gapTimeline =
       Inr \<lparr>Version = ''5'',
            x_Sequence =
              [\<lparr>seq_Name = ''Timeline with Gaps'', seq_Duration = toInt64 (rt_value d),
                seq_Rate = rate24,
                seq_Media =
                  \<lparr>media_Video = Some \<lparr>v_Track =
                     [\<lparr>t_Enabled = Some True,
                       t_ClipItem = [encodedClipItem rate24 ''Clip 1'' 0 50,
                                     encodedClipItem rate24 ''Clip 2'' 75 125],
                       t_TransitionItem = [], t_GeneratorItem = []\<rparr>]\<rparr>,
                   media_Audio = None\<rparr>\<rparr>]\<rparr>"
    by (simp add: Encoder_convertTimeline_def gapTimeline_rate isNTSCRate_24 rate
        Encoder_convertTracks_def gapTimeline_tracks gapTrack_encoded Let_def)
       (simp add: gapTimeline_def)
  moreover have "ci_Start (encodedClipItem rate ''Clip 1'' 0 50) = 0"
    "ci_Start (encodedClipItem rate ''Clip 2'' 75 125) = 75"
    by (simp_all add: encodedClipItem_def)
  ultimately show ?thesis
    using gapTrack_encoded [of env r rate] by simp
qed

lemma palTimeline_rate: "findFrameRate (timeline_tracks palTimeline) = Some 25"
  by (simp add: palTimeline_def videoTrack_def modelClip_def Clip_Duration_def
      NewTimeRange_def NewRationalTime_def frames_def)

lemma palTimeline_workingRate: "workingRate palTimeline = \<lparr>Timebase = 25, NTSC = False\<rparr>"
proof -
  have "List.map_filter leadingClipRate (timeline_tracks palTimeline) = [25]"
    by (simp add: List.map_filter_simps leadingClipRate_def palTimeline_def videoTrack_def
        modelClip_def Clip_Duration_def NewTimeRange_def NewRationalTime_def frames_def)
  moreover have "encoderRate 25 False = \<lparr>Timebase = 25, NTSC = False\<rparr>"
    by (simp add: encoderRate_def truncToInt_def)
  ultimately show ?thesis
    by (simp add: workingRate_def isNTSCRate_25)
qed

lemma palTimeline_tracks:
  "VideoTracks palTimeline
     = [videoTrack [ClipChild (modelClip ''Clip'' (Some (MissingReference [] None)) 50 25)]]"
  "AudioTracks palTimeline = []"
  by (simp_all add: VideoTracks_def AudioTracks_def palTimeline_def videoTrack_def
      TrackKindVideo_def TrackKindAudio_def)

lemma palTrack_encoded:
  "Encoder_convertTrack env
     (videoTrack [ClipChild (modelClip ''Clip'' (Some (MissingReference [] None)) 50 25)]) rate =
     Inr \<lparr>t_Enabled = Some True, t_ClipItem = [encodedClipItem rate ''Clip'' 0 50],
          t_TransitionItem = [], t_GeneratorItem = []\<rparr>"
  by (simp add: Encoder_convertTrack_def videoTrack_def modelClip_def
      Encoder_convertToGenerator_def Encoder_convertClip_def Encoder_convertMediaReference_def
      Clip_Duration_def NewTimeRange_def NewRationalTime_def frames_def
      toInt64_def truncToInt_def sanitizeID_def encodedClipItem_def missingFile_def Let_def)

lemma palTimeline_encoded:
  "Encoder_convertTimeline (exampleEnv (frames 50 25)) palTimeline =
     Inr \<lparr>Version = ''5'',
          x_Sequence =
            [\<lparr>seq_Name = ''PAL'', seq_Duration = 50,
              seq_Rate = \<lparr>Timebase = 25, NTSC = False\<rparr>,
              seq_Media =
                \<lparr>media_Video = Some \<lparr>v_Track =
                   [\<lparr>t_Enabled = Some True,
                     t_ClipItem = [encodedClipItem \<lparr>Timebase = 25, NTSC = False\<rparr> ''Clip'' 0 50],
                     t_TransitionItem = [], t_GeneratorItem = []\<rparr>]\<rparr>,
                 media_Audio = None\<rparr>\<rparr>]\<rparr>"
proof -
  have rate: "encoderRate 25 False = \<lparr>Timebase = 25, NTSC = False\<rparr>"
    by (simp add: encoderRate_def truncToInt_def)
  show ?thesis
    by (simp add: Encoder_convertTimeline_def palTimeline_rate isNTSCRate_25 rate
        Encoder_convertTracks_def palTimeline_tracks palTrack_encoded Let_def exampleEnv_def
        frames_def NewRationalTime_def toInt64_def truncToInt_def)
       (simp add: palTimeline_def)
qed

lemma gapFirst_tracks:
  "VideoTracks gapFirstTimeline
     = [videoTrack [GapChild (modelGap 10 30),
                    ClipChild (modelClip ''Clip'' (Some (MissingReference [] None)) 50 30)]]"
  "AudioTracks gapFirstTimeline = []"
  by (simp_all add: VideoTracks_def AudioTracks_def gapFirstTimeline_def videoTrack_def
      TrackKindVideo_def TrackKindAudio_def)

lemma gapFirst_track_encoded:
  "Encoder_convertTrack env
     (videoTrack [GapChild (modelGap 10 30),
                  ClipChild (modelClip ''Clip'' (Some (MissingReference [] None)) 50 30)]) rate =
     Inr \<lparr>t_Enabled = Some True, t_ClipItem = [encodedClipItem rate ''Clip'' 10 60],
          t_TransitionItem = [], t_GeneratorItem = []\<rparr>"
  by (simp add: Encoder_convertTrack_def videoTrack_def modelClip_def modelGap_def
      Encoder_convertToGenerator_def Encoder_convertClip_def Encoder_convertMediaReference_def
      Clip_Duration_def Gap_Duration_def NewTimeRange_def NewRationalTime_def frames_def
      toInt64_def truncToInt_def sanitizeID_def encodedClipItem_def missingFile_def Let_def)

text \<open>
  C4. Encode picks exactly one working rate for the whole sequence: the rate of the
  duration of the leading child of the first track, in the order of the timeline's stack,
  whose leading child is a clip with a known duration of positive rate, and 24 fps
  without drop-frame when no track starts so. The sequence and every emitted clip item,
  transition item, generator item and file reference carry this one rate, whatever the
  rates of the other clips of the model.
\<close>

theorem one_working_rate:
  assumes "Encoder_convertTimeline env timeline = Inr xmeml"
  shows "\<exists>seq. x_Sequence xmeml = [seq] \<and> seq_Rate seq = workingRate timeline
     \<and> (\<forall>track \<in> set (sequenceTracks seq).
           (\<forall>ci \<in> set (t_ClipItem track).
               ci_Rate ci = workingRate timeline
               \<and> (\<forall>f. ci_File ci = Some f \<longrightarrow> file_Rate f = workingRate timeline))
         \<and> (\<forall>ti \<in> set (t_TransitionItem track). ti_Rate ti = workingRate timeline)
         \<and> (\<forall>g \<in> set (t_GeneratorItem track). gi_Rate g = workingRate timeline))"
proof -
  let ?fr = "case findFrameRate (timeline_tracks timeline) of Some r \<Rightarrow> r | None \<Rightarrow> 24"
  let ?ntsc = "case findFrameRate (timeline_tracks timeline) of Some r \<Rightarrow> isNTSCRate r | None \<Rightarrow> False"
  from Encoder_convertTimeline_sequence [OF assms] obtain seq where
    x: "xmeml = \<lparr>Version = ''5'', x_Sequence = [seq]\<rparr>"
    and c: "Encoder_convertTracks env timeline ?fr ?ntsc = Inr seq"
    and r: "seq_Rate seq = workingRate timeline"
    by blast
  from Encoder_convertTracks_sequence [OF c] r
  have tracks: "\<forall>ft \<in> set (sequenceTracks seq).
           \<exists>track. Encoder_convertTrack env track (workingRate timeline) = Inr ft"
    by simp
  have "(\<forall>ci \<in> set (t_ClipItem ft).
               ci_Rate ci = workingRate timeline
               \<and> (\<forall>f. ci_File ci = Some f \<longrightarrow> file_Rate f = workingRate timeline))
         \<and> (\<forall>ti \<in> set (t_TransitionItem ft). ti_Rate ti = workingRate timeline)
         \<and> (\<forall>g \<in> set (t_GeneratorItem ft). gi_Rate g = workingRate timeline)"
    if "ft \<in> set (sequenceTracks seq)" for ft
  proof -
    from tracks that obtain track where
      "Encoder_convertTrack env track (workingRate timeline) = Inr ft"
      by blast
    then show ?thesis by (rule Encoder_convertTrack_rates)
  qed
  with x r show ?thesis by simp
qed

theorem one_working_rate_witness:
  "Encoder_convertTimeline (exampleEnv (frames 50 25)) palTimeline =
     Inr \<lparr>Version = ''5'',
          x_Sequence =
            [\<lparr>seq_Name = ''PAL'', seq_Duration = 50,
              seq_Rate = \<lparr>Timebase = 25, NTSC = False\<rparr>,
              seq_Media =
                \<lparr>media_Video = Some \<lparr>v_Track =
                   [\<lparr>t_Enabled = Some True,
                     t_ClipItem = [encodedClipItem \<lparr>Timebase = 25, NTSC = False\<rparr> ''Clip'' 0 50],
                     t_TransitionItem = [], t_GeneratorItem = []\<rparr>]\<rparr>,
                 media_Audio = None\<rparr>\<rparr>]\<rparr>
   \<and> workingRate palTimeline = \<lparr>Timebase = 25, NTSC = False\<rparr>"
  using one_working_rate [OF palTimeline_encoded] palTimeline_encoded palTimeline_workingRate
  by simp

theorem first_clip_rate_counterexample:
  "Encoder_convertTimeline (exampleEnv (frames 60 30)) gapFirstTimeline =
     Inr \<lparr>Version = ''5'',
          x_Sequence =
            [\<lparr>seq_Name = ''Gap first'', seq_Duration = 60,
              seq_Rate = \<lparr>Timebase = 24, NTSC = False\<rparr>,
              seq_Media =
                \<lparr>media_Video = Some \<lparr>v_Track =
                   [\<lparr>t_Enabled = Some True,
                     t_ClipItem = [encodedClipItem \<lparr>Timebase = 24, NTSC = False\<rparr> ''Clip'' 10 60],
                     t_TransitionItem = [], t_GeneratorItem = []\<rparr>]\<rparr>,
                 media_Audio = None\<rparr>\<rparr>]\<rparr>
   \<and> Clip_Duration (modelClip ''Clip'' (Some (MissingReference [] None)) 50 30)
       = Inr \<lparr>rt_value = 50, rt_rate = 30\<rparr>"
proof -
  have none: "findFrameRate (timeline_tracks gapFirstTimeline) = None"
    by (simp add: gapFirstTimeline_def videoTrack_def)
  have "Encoder_convertTimeline (exampleEnv (frames 60 30)) gapFirstTimeline =
     Inr \<lparr>Version = ''5'',
          x_Sequence =
            [\<lparr>seq_Name = ''Gap first'', seq_Duration = 60,
              seq_Rate = \<lparr>Timebase = 24, NTSC = False\<rparr>,
              seq_Media =
                \<lparr>media_Video = Some \<lparr>v_Track =
                   [\<lparr>t_Enabled = Some True,
                     t_ClipItem = [encodedClipItem \<lparr>Timebase = 24, NTSC = False\<rparr> ''Clip'' 10 60],
                     t_TransitionItem = [], t_GeneratorItem = []\<rparr>]\<rparr>,
                 media_Audio = None\<rparr>\<rparr>]\<rparr>"
    by (simp add: Encoder_convertTimeline_def none encoderRate_default
        Encoder_convertTracks_def gapFirst_tracks gapFirst_track_encoded Let_def exampleEnv_def
        frames_def NewRationalTime_def toInt64_def truncToInt_def)
       (simp add: gapFirstTimeline_def)
  moreover have "Clip_Duration (modelClip ''Clip'' (Some (MissingReference [] None)) 50 30)
       = Inr \<lparr>rt_value = 50, rt_rate = 30\<rparr>"
    by (simp add: Clip_Duration_def modelClip_def NewTimeRange_def NewRationalTime_def frames_def)
  ultimately show ?thesis by simp
qed

section \<open>The encoder: media references, generators and the enabled flag\<close>

lemma slug_file:
  "Encoder_convertMediaReference env slugReference rate24 = Inr slugFile"
  by (simp add: Encoder_convertMediaReference_def slugReference_def slugFile_def sanitizeID_def
      sanitizeStep_def isIDRune_def Let_def)

lemma slug_clip_duration: "\<not> isl (Clip_Duration (modelClip ''Slug'' (Some slugReference) 50 24))"
  by (simp add: Clip_Duration_def modelClip_def)

text \<open>
  C7. During encode, converting a media reference that is neither an external-file
  reference nor a missing reference does not fail: the reference becomes a file
  reference with the identifier and name of the reference, the working rate, an empty
  path URL and no duration. \<open>convertMediaReference\<close> never returns an error, so
  \<open>convertClip\<close> never fails with \<open>MediaReferenceConversionFailed\<close>, for any clip. A clip
  that holds such a reference is written as a clip item with that file reference
  whenever the duration of the clip is available (it has a source range, or its
  reference has an available range); this proviso concerns only the separate failure
  for a missing range.
\<close>

theorem unrecognized_reference_is_written:
  "(\<exists>written. Encoder_convertMediaReference env ref rate = Inr written
        \<and> file_ID written = ''file-'' @ sanitizeID (ref_name ref)
        \<and> file_Name written = ref_name ref
        \<and> file_Rate written = rate)
   \<and> ((\<forall>n u a. ref \<noteq> ExternalReference n u a) \<longrightarrow>
        Encoder_convertMediaReference env ref rate =
          Inr \<lparr>file_ID = ''file-'' @ sanitizeID (ref_name ref), file_Name = ref_name ref,
               PathURL = [], file_Rate = rate, file_Duration = 0\<rparr>)
   \<and> Encoder_convertClip env clip rate pos \<noteq> Inl (MediaReferenceConversionFailed cause)
   \<and> (media_reference clip = Some ref \<and> \<not> isl (Clip_Duration clip) \<longrightarrow>
        (\<exists>ci written. Encoder_convertClip env clip rate pos = Inr ci
            \<and> ci_File ci = Some written
            \<and> Encoder_convertMediaReference env ref rate = Inr written))"
proof -
  have never: "Encoder_convertClip env clip rate pos \<noteq> Inl (MediaReferenceConversionFailed cause)"
  proof
    assume "Encoder_convertClip env clip rate pos = Inl (MediaReferenceConversionFailed cause)"
    from convertClip_error [OF this] show False
      by (simp add: MediaReferenceConversionFailed_def)
  qed
  have emitted: "\<exists>ci written. Encoder_convertClip env clip rate pos = Inr ci
            \<and> ci_File ci = Some written
            \<and> Encoder_convertMediaReference env ref rate = Inr written"
    if "media_reference clip = Some ref" "\<not> isl (Clip_Duration clip)"
  proof -
    from that(2) obtain ci where ci: "Encoder_convertClip env clip rate pos = Inr ci"
      using convertClip_returns [of env clip rate pos] by blast
    from convertClip_item [OF ci] that(1)
    have "Inr (the (ci_File ci)) = Encoder_convertMediaReference env ref rate"
      "ci_File ci \<noteq> None"
      by blast+
    then have "ci_File ci = Some (the (ci_File ci))"
      "Encoder_convertMediaReference env ref rate = Inr (the (ci_File ci))"
      by simp_all
    with ci show ?thesis by blast
  qed
  from never emitted convertMediaReference_file [of env ref rate]
    convertMediaReference_unrecognized [of ref env rate]
  show ?thesis by blast
qed

theorem unrecognized_reference_is_written_witness:
  "(\<forall>n u a. slugReference \<noteq> ExternalReference n u a)
   \<and> \<not> isl (Clip_Duration (modelClip ''Slug'' (Some slugReference) 50 24))
   \<and> Encoder_convertMediaReference (exampleEnv (frames 50 24)) slugReference rate24 = Inr slugFile
   \<and> (\<exists>ci. Encoder_convertClip (exampleEnv (frames 50 24))
              (modelClip ''Slug'' (Some slugReference) 50 24) rate24 0 = Inr ci
          \<and> ci_File ci = Some slugFile)"
proof -
  let ?env = "exampleEnv (frames 50 24)"
  let ?clip = "modelClip ''Slug'' (Some slugReference) 50 24"
  have kind: "\<forall>n u a. slugReference \<noteq> ExternalReference n u a"
    by (simp add: slugReference_def)
  have ref: "media_reference ?clip = Some slugReference"
    by (simp add: modelClip_def)
  note th = unrecognized_reference_is_written [of ?env slugReference rate24 ?clip 0]
  from th kind have "Encoder_convertMediaReference ?env slugReference rate24 =
          Inr \<lparr>file_ID = ''file-'' @ sanitizeID (ref_name slugReference),
               file_Name = ref_name slugReference,
               PathURL = [], file_Rate = rate24, file_Duration = 0\<rparr>"
    by blast
  then have slug: "Encoder_convertMediaReference ?env slugReference rate24 = Inr slugFile"
    by (simp add: slug_file)
  from th ref slug_clip_duration obtain ci written where
    "Encoder_convertClip ?env ?clip rate24 0 = Inr ci" "ci_File ci = Some written"
    "Encoder_convertMediaReference ?env slugReference rate24 = Inr written"
    by blast
  with slug have "\<exists>ci. Encoder_convertClip ?env ?clip rate24 0 = Inr ci \<and> ci_File ci = Some slugFile"
    by auto
  with kind slug_clip_duration slug show ?thesis by blast
qed

theorem reference_error_counterexample:
  "Encoder_convertMediaReference (exampleEnv (frames 50 24)) (GeneratorReference ''Slug'' ''Slug'' None)
     rate24
     = Inr \<lparr>file_ID = ''file-Slug'', file_Name = ''Slug'', PathURL = [], file_Rate = rate24,
            file_Duration = 0\<rparr>
   \<and> Encoder_convertClip (exampleEnv (frames 50 24))
       (modelClip ''Slug'' (Some (GeneratorReference ''Slug'' ''Slug'' None)) 50 24) rate24 0
     = Inr ((encodedClipItem rate24 ''Slug'' 0 50)
              \<lparr>ci_File := Some \<lparr>file_ID = ''file-Slug'', file_Name = ''Slug'', PathURL = [],
                                 file_Rate = rate24, file_Duration = 0\<rparr>\<rparr>)"
  by (simp add: Encoder_convertMediaReference_def Encoder_convertClip_def modelClip_def
      sanitizeID_def sanitizeStep_def isIDRune_def NewTimeRange_def NewRationalTime_def frames_def
      toInt64_def truncToInt_def encodedClipItem_def missingFile_def Let_def)

lemma list_all2_map_eq:
  assumes "list_all2 (\<lambda>x y. g y = f x) xs ys"
  shows "map g ys = map f xs"
  using assms by (induction rule: list_all2_induct) simp_all

lemma convertToGenerator_reference:
  assumes "source_range clip \<noteq> None"
  shows "Encoder_convertToGenerator (clip\<lparr>media_reference := other\<rparr>) rate pos
           = Encoder_convertToGenerator clip rate pos"
proof -
  from assms obtain sr where "source_range clip = Some sr"
    by auto
  then have "Clip_Duration (clip\<lparr>media_reference := other\<rparr>) = Clip_Duration clip"
    by (simp add: Clip_Duration_def)
  then show ?thesis
    by (simp add: Encoder_convertToGenerator_def Let_def split: option.split sum.split)
qed

lemma generator_reference_clip:
  assumes "media_reference clip = Some (GeneratorReference n k ar)"
    and "\<not> isl (Clip_Duration clip)"
  shows "\<exists>ci f. Encoder_convertClip env clip rate pos = Inr ci
           \<and> ci_File ci = Some f \<and> PathURL f = []"
proof -
  from assms(2) obtain ci where ci: "Encoder_convertClip env clip rate pos = Inr ci"
    using convertClip_returns [of env clip rate pos] by blast
  from convertClip_item [OF ci] assms(1)
  have "Inr (the (ci_File ci)) = Encoder_convertMediaReference env (GeneratorReference n k ar) rate"
    "ci_File ci \<noteq> None"
    by blast+
  moreover have "Encoder_convertMediaReference env (GeneratorReference n k ar) rate =
      Inr \<lparr>file_ID = ''file-'' @ sanitizeID n, file_Name = n,
           PathURL = [], file_Rate = rate, file_Duration = 0\<rparr>"
    using convertMediaReference_unrecognized [of "GeneratorReference n k ar" env rate] by simp
  ultimately have "ci_File ci = Some (the (ci_File ci))" "PathURL (the (ci_File ci)) = []"
    by auto
  with ci show ?thesis by blast
qed

lemma convertClip_fails:
  "isl (Clip_Duration clip) \<Longrightarrow> isl (Encoder_convertClip env clip rate pos)"
  using convertClip_returns [of env clip rate pos]
  by (cases "Encoder_convertClip env clip rate pos") auto

text \<open>
  C9. For every clip whose duration is available (it has a source range, or its media
  reference has an available range), the encoder decides whether the clip is emitted as
  a generator item solely by whether the clip's metadata maps \<open>fcp7xml_generator\<close> to
  the boolean true; the kind of the media reference is not consulted. So every such clip
  that holds a generator reference but lacks the flag is emitted as an ordinary clip
  item whose file reference has an empty path URL. A clip without an available duration
  is emitted as neither: its conversion fails and with it the encode.
\<close>

theorem generator_routing:
  "(Encoder_convertTrack env track rate = Inr fcpTrack \<longrightarrow>
       list_all2 (\<lambda>c g. \<exists>p. Encoder_convertToGenerator c rate p = Some g)
         (filter isGeneratorClip (clipsOf (track_children track))) (t_GeneratorItem fcpTrack)
     \<and> list_all2 (\<lambda>c ci. \<exists>p. Encoder_convertClip env c rate p = Inr ci)
         (filter (\<lambda>c. \<not> isGeneratorClip c) (clipsOf (track_children track)))
         (t_ClipItem fcpTrack))
   \<and> (\<not> isl (Clip_Duration clip) \<longrightarrow>
        (Encoder_convertToGenerator clip rate pos \<noteq> None \<longleftrightarrow> isGeneratorClip clip))
   \<and> (source_range clip \<noteq> None \<longrightarrow>
        Encoder_convertToGenerator (clip\<lparr>media_reference := other\<rparr>) rate pos
          = Encoder_convertToGenerator clip rate pos)
   \<and> (media_reference clip = Some (GeneratorReference n k ar) \<and> \<not> isGeneratorClip clip
        \<and> \<not> isl (Clip_Duration clip) \<longrightarrow>
        Encoder_convertToGenerator clip rate pos = None
        \<and> (\<exists>ci f. Encoder_convertClip env clip rate pos = Inr ci
               \<and> ci_File ci = Some f \<and> PathURL f = []))
   \<and> (isl (Clip_Duration clip) \<longrightarrow>
        Encoder_convertToGenerator clip rate pos = None
        \<and> isl (Encoder_convertClip env clip rate pos))"
proof -
  have a: "Encoder_convertTrack env track rate = Inr fcpTrack \<longrightarrow>
       list_all2 (\<lambda>c g. \<exists>p. Encoder_convertToGenerator c rate p = Some g)
         (filter isGeneratorClip (clipsOf (track_children track))) (t_GeneratorItem fcpTrack)
     \<and> list_all2 (\<lambda>c ci. \<exists>p. Encoder_convertClip env c rate p = Inr ci)
         (filter (\<lambda>c. \<not> isGeneratorClip c) (clipsOf (track_children track)))
         (t_ClipItem fcpTrack)"
    using Encoder_convertTrack_items [of env track rate fcpTrack] by blast
  have b: "\<not> isl (Clip_Duration clip) \<longrightarrow>
        (Encoder_convertToGenerator clip rate pos \<noteq> None \<longleftrightarrow> isGeneratorClip clip)"
    using convertToGenerator_None [of clip rate pos] by auto
  have c: "source_range clip \<noteq> None \<longrightarrow>
        Encoder_convertToGenerator (clip\<lparr>media_reference := other\<rparr>) rate pos
          = Encoder_convertToGenerator clip rate pos"
    using convertToGenerator_reference by blast
  have d: "media_reference clip = Some (GeneratorReference n k ar) \<and> \<not> isGeneratorClip clip
        \<and> \<not> isl (Clip_Duration clip) \<longrightarrow>
        Encoder_convertToGenerator clip rate pos = None
        \<and> (\<exists>ci f. Encoder_convertClip env clip rate pos = Inr ci
               \<and> ci_File ci = Some f \<and> PathURL f = [])"
    using convertToGenerator_None [of clip rate pos]
      generator_reference_clip [of clip n k ar env rate pos] by blast
  have e: "isl (Clip_Duration clip) \<longrightarrow>
        Encoder_convertToGenerator clip rate pos = None
        \<and> isl (Encoder_convertClip env clip rate pos)"
    using convertToGenerator_None [of clip rate pos] convertClip_fails [of clip env rate pos]
    by blast
  from a b c d e show ?thesis by (intro conjI)
qed

lemma mixedTrack_ranges: "list_all childHasRange (track_children mixedTrack)"
  by (simp add: mixedTrack_def videoTrack_def childHasRange_def modelClip_def flaggedSlugClip_def)

lemma mixedTrack_flags:
  "filter isGeneratorClip (clipsOf (track_children mixedTrack)) = [flaggedSlugClip]"
  "filter (\<lambda>c. \<not> isGeneratorClip c) (clipsOf (track_children mixedTrack))
     = [(modelClip ''Off'' (Some (MissingReference [] None)) 50 24)\<lparr>clip_enabled := False\<rparr>,
        modelClip ''Slug'' (Some slugReference) 50 24]"
  by (simp_all add: mixedTrack_def videoTrack_def isGeneratorClip_def modelClip_def
      flaggedSlugClip_def)

theorem generator_routing_witness:
  "\<not> isGeneratorClip (modelClip ''Slug'' (Some slugReference) 50 24)
   \<and> isGeneratorClip flaggedSlugClip
   \<and> \<not> isl (Clip_Duration (modelClip ''Slug'' (Some slugReference) 50 24))
   \<and> isl (Clip_Duration bareSlugClip)
   \<and> Encoder_convertToGenerator (modelClip ''Slug'' (Some slugReference) 50 24) rate24 0 = None
   \<and> (\<exists>ci f. Encoder_convertClip (exampleEnv (frames 125 24))
                (modelClip ''Slug'' (Some slugReference) 50 24) rate24 0 = Inr ci
             \<and> ci_File ci = Some f \<and> PathURL f = [])
   \<and> isl (Encoder_convertClip (exampleEnv (frames 125 24)) bareSlugClip rate24 0)
   \<and> (\<exists>fcpTrack. Encoder_convertTrack (exampleEnv (frames 125 24)) mixedTrack rate24 = Inr fcpTrack
         \<and> map gi_Name (t_GeneratorItem fcpTrack) = [''Flagged'']
         \<and> map ci_Name (t_ClipItem fcpTrack) = [''Off'', ''Slug''])"
proof -
  let ?env = "exampleEnv (frames 125 24)"
  let ?slug = "modelClip ''Slug'' (Some slugReference) 50 24"
  have unflagged: "\<not> isGeneratorClip ?slug"
    by (simp add: isGeneratorClip_def modelClip_def)
  have flagged: "isGeneratorClip flaggedSlugClip"
    by (simp add: isGeneratorClip_def flaggedSlugClip_def modelClip_def)
  have bare: "isl (Clip_Duration bareSlugClip)"
    by (simp add: Clip_Duration_def Clip_AvailableRange_def bareSlugClip_def slugReference_def)
  have ref: "media_reference ?slug = Some (GeneratorReference ''Slug'' ''Slug'' None)"
    by (simp add: modelClip_def slugReference_def)
  note one = generator_routing [of ?env mixedTrack rate24 _ ?slug 0 _ "''Slug''" "''Slug''" None]
  from one ref unflagged slug_clip_duration
  have slug: "Encoder_convertToGenerator ?slug rate24 0 = None
        \<and> (\<exists>ci f. Encoder_convertClip ?env ?slug rate24 0 = Inr ci
               \<and> ci_File ci = Some f \<and> PathURL f = [])"
    by blast
  from generator_routing [of ?env mixedTrack rate24 _ bareSlugClip 0] bare
  have failing: "isl (Encoder_convertClip ?env bareSlugClip rate24 0)"
    by blast
  obtain fcpTrack where t: "Encoder_convertTrack ?env mixedTrack rate24 = Inr fcpTrack"
    using Encoder_convertTrack_total [OF mixedTrack_ranges] by blast
  with generator_routing [of ?env mixedTrack rate24 fcpTrack]
  have gens: "list_all2 (\<lambda>c g. \<exists>p. Encoder_convertToGenerator c rate24 p = Some g)
         [flaggedSlugClip] (t_GeneratorItem fcpTrack)"
    and clips: "list_all2 (\<lambda>c ci. \<exists>p. Encoder_convertClip ?env c rate24 p = Inr ci)
         [(modelClip ''Off'' (Some (MissingReference [] None)) 50 24)\<lparr>clip_enabled := False\<rparr>, ?slug]
         (t_ClipItem fcpTrack)"
    by (simp_all add: mixedTrack_flags)
  from gens have "list_all2 (\<lambda>c g. gi_Name g = clip_name c) [flaggedSlugClip] (t_GeneratorItem fcpTrack)"
    by (rule list_all2_mono) (use convertToGenerator_Some in blast)
  from list_all2_map_eq [OF this]
  have g: "map gi_Name (t_GeneratorItem fcpTrack) = [''Flagged'']"
    by (simp add: flaggedSlugClip_def modelClip_def)
  from clips have "list_all2 (\<lambda>c ci. ci_Name ci = clip_name c)
         [(modelClip ''Off'' (Some (MissingReference [] None)) 50 24)\<lparr>clip_enabled := False\<rparr>, ?slug]
         (t_ClipItem fcpTrack)"
    by (rule list_all2_mono) (use convertClip_item in blast)
  from list_all2_map_eq [OF this]
  have c: "map ci_Name (t_ClipItem fcpTrack) = [''Off'', ''Slug'']"
    by (simp add: modelClip_def)
  from t g c have tr: "\<exists>fcpTrack. Encoder_convertTrack ?env mixedTrack rate24 = Inr fcpTrack
         \<and> map gi_Name (t_GeneratorItem fcpTrack) = [''Flagged'']
         \<and> map ci_Name (t_ClipItem fcpTrack) = [''Off'', ''Slug'']"
    by (intro exI conjI)
  from slug have s1: "Encoder_convertToGenerator ?slug rate24 0 = None"
    and s2: "\<exists>ci f. Encoder_convertClip ?env ?slug rate24 0 = Inr ci
               \<and> ci_File ci = Some f \<and> PathURL f = []"
    by (rule conjunct1, rule conjunct2)
  show ?thesis
    using unflagged flagged slug_clip_duration bare s1 s2 failing tr
    by (intro conjI)
qed

theorem generator_reference_counterexample:
  "media_reference bareSlugClip = Some (GeneratorReference ''Slug'' ''Slug'' None)
   \<and> map_of (clip_metadata bareSlugClip) ''fcp7xml_generator'' = None
   \<and> Encoder_convertToGenerator bareSlugClip rate24 0 = None
   \<and> Encoder_convertClip (exampleEnv (frames 0 24)) bareSlugClip rate24 0
       = Inl (Wrap ''failed to get available range'' DurationUnavailable)
   \<and> Encoder_convertTrack (exampleEnv (frames 0 24)) (videoTrack [ClipChild bareSlugClip]) rate24
       = Inl (Wrap ''failed to convert clip''
               (Wrap ''failed to get available range'' DurationUnavailable))"
  by (simp add: bareSlugClip_def slugReference_def Encoder_convertToGenerator_def
      Encoder_convertClip_def Encoder_convertTrack_def videoTrack_def Clip_AvailableRange_def
      Let_def)

lemma decoded_clip_enabled:
  assumes "ci_Enabled item = None"
    and "Decoder_convertClipItem item sequenceRate = Inr (ClipChild clip)"
  shows "clip_enabled clip"
  using assms
  by (auto simp: Decoder_convertClipItem_def Let_def split: option.splits)

text \<open>
  C10. The encoder writes an explicit enabled flag into every track, clip item and
  generator item it produces: the \<open>Enabled\<close> field of each is set, to the enabled state
  of the model track or clip it comes from, also when the element of an originally
  decoded document had no such flag (the decoded clip is enabled, and the flag written
  is true).
\<close>

theorem enabled_always_written:
  "(Encoder_convertTrack env track rate = Inr fcpTrack \<longrightarrow>
       t_Enabled fcpTrack = Some (track_enabled track)
     \<and> map ci_Enabled (t_ClipItem fcpTrack)
         = map (\<lambda>c. Some (clip_enabled c))
             (filter (\<lambda>c. \<not> isGeneratorClip c) (clipsOf (track_children track)))
     \<and> map gi_Enabled (t_GeneratorItem fcpTrack)
         = map (\<lambda>c. Some (clip_enabled c))
             (filter isGeneratorClip (clipsOf (track_children track))))
   \<and> (Encoder_convertClip env clip rate pos = Inr ci \<longrightarrow>
        ci_Enabled ci = Some (clip_enabled clip))
   \<and> (Encoder_convertToGenerator clip rate pos = Some g \<longrightarrow>
        gi_Enabled g = Some (clip_enabled clip))
   \<and> (ci_Enabled item = None
        \<and> Decoder_convertClipItem item sequenceRate = Inr (ClipChild clip)
        \<and> Encoder_convertClip env clip rate pos = Inr ci \<longrightarrow>
        ci_Enabled ci = Some True)
   \<and> (list_all childHasRange (track_children track) \<longrightarrow>
        (\<exists>written. Encoder_convertTrack env track rate = Inr written))"
proof -
  have a: "Encoder_convertTrack env track rate = Inr fcpTrack \<longrightarrow>
       t_Enabled fcpTrack = Some (track_enabled track)
     \<and> map ci_Enabled (t_ClipItem fcpTrack)
         = map (\<lambda>c. Some (clip_enabled c))
             (filter (\<lambda>c. \<not> isGeneratorClip c) (clipsOf (track_children track)))
     \<and> map gi_Enabled (t_GeneratorItem fcpTrack)
         = map (\<lambda>c. Some (clip_enabled c))
             (filter isGeneratorClip (clipsOf (track_children track)))"
  proof
    assume t: "Encoder_convertTrack env track rate = Inr fcpTrack"
    note items = Encoder_convertTrack_items [OF t]
    from items have "list_all2 (\<lambda>c ci. \<exists>p. Encoder_convertClip env c rate p = Inr ci)
          (filter (\<lambda>c. \<not> isGeneratorClip c) (clipsOf (track_children track))) (t_ClipItem fcpTrack)"
      by (rule conjunct2 [THEN conjunct1])
    then have "list_all2 (\<lambda>c ci. ci_Enabled ci = Some (clip_enabled c))
          (filter (\<lambda>c. \<not> isGeneratorClip c) (clipsOf (track_children track))) (t_ClipItem fcpTrack)"
      by (rule list_all2_mono) (use convertClip_item in blast)
    from list_all2_map_eq [OF this]
    have clips: "map ci_Enabled (t_ClipItem fcpTrack)
         = map (\<lambda>c. Some (clip_enabled c))
             (filter (\<lambda>c. \<not> isGeneratorClip c) (clipsOf (track_children track)))" .
    from items have "list_all2 (\<lambda>c g. \<exists>p. Encoder_convertToGenerator c rate p = Some g)
          (filter isGeneratorClip (clipsOf (track_children track))) (t_GeneratorItem fcpTrack)"
      by (rule conjunct2 [THEN conjunct2, THEN conjunct1])
    then have "list_all2 (\<lambda>c g. gi_Enabled g = Some (clip_enabled c))
          (filter isGeneratorClip (clipsOf (track_children track))) (t_GeneratorItem fcpTrack)"
      by (rule list_all2_mono) (use convertToGenerator_Some in blast)
    from list_all2_map_eq [OF this]
    have gens: "map gi_Enabled (t_GeneratorItem fcpTrack)
         = map (\<lambda>c. Some (clip_enabled c))
             (filter isGeneratorClip (clipsOf (track_children track)))" .
    from items have "t_Enabled fcpTrack = Some (track_enabled track)"
      by (rule conjunct1)
    with clips gens show "t_Enabled fcpTrack = Some (track_enabled track)
     \<and> map ci_Enabled (t_ClipItem fcpTrack)
         = map (\<lambda>c. Some (clip_enabled c))
             (filter (\<lambda>c. \<not> isGeneratorClip c) (clipsOf (track_children track)))
     \<and> map gi_Enabled (t_GeneratorItem fcpTrack)
         = map (\<lambda>c. Some (clip_enabled c))
             (filter isGeneratorClip (clipsOf (track_children track)))"
      by (intro conjI)
  qed
  have b: "Encoder_convertClip env clip rate pos = Inr ci \<longrightarrow>
        ci_Enabled ci = Some (clip_enabled clip)"
    using convertClip_item [of env clip rate pos ci] by blast
  have c: "Encoder_convertToGenerator clip rate pos = Some g \<longrightarrow>
        gi_Enabled g = Some (clip_enabled clip)"
    using convertToGenerator_Some [of clip rate pos g] by blast
  have d: "ci_Enabled item = None
        \<and> Decoder_convertClipItem item sequenceRate = Inr (ClipChild clip)
        \<and> Encoder_convertClip env clip rate pos = Inr ci \<longrightarrow>
        ci_Enabled ci = Some True"
    using b decoded_clip_enabled [of item sequenceRate clip] by simp
  have e: "list_all childHasRange (track_children track) \<longrightarrow>
        (\<exists>written. Encoder_convertTrack env track rate = Inr written)"
    using Encoder_convertTrack_total [of track env rate] by blast
  from a b c d e show ?thesis
    by (intro conjI)
qed

theorem enabled_always_written_witness:
  "list_all childHasRange (track_children mixedTrack)
   \<and> ci_Enabled (plainClipItem ''Clip'' 0 50) = None
   \<and> (\<exists>fcpTrack. Encoder_convertTrack (exampleEnv (frames 125 24)) mixedTrack rate24 = Inr fcpTrack
         \<and> t_Enabled fcpTrack = Some True
         \<and> map ci_Enabled (t_ClipItem fcpTrack) = [Some False, Some True]
         \<and> map gi_Enabled (t_GeneratorItem fcpTrack) = [Some True])
   \<and> (\<exists>clip ci. Decoder_convertClipItem (plainClipItem ''Clip'' 0 50) rate24 = Inr (ClipChild clip)
         \<and> Encoder_convertClip (exampleEnv (frames 125 24)) clip rate24 0 = Inr ci
         \<and> ci_Enabled ci = Some True)"
proof -
  let ?env = "exampleEnv (frames 125 24)"
  let ?item = "plainClipItem ''Clip'' 0 50"
  from enabled_always_written [of ?env mixedTrack rate24] mixedTrack_ranges
  obtain fcpTrack where t: "Encoder_convertTrack ?env mixedTrack rate24 = Inr fcpTrack"
    by blast
  with enabled_always_written [of ?env mixedTrack rate24 fcpTrack]
  have "t_Enabled fcpTrack = Some (track_enabled mixedTrack)"
    "map ci_Enabled (t_ClipItem fcpTrack)
         = map (\<lambda>c. Some (clip_enabled c))
             (filter (\<lambda>c. \<not> isGeneratorClip c) (clipsOf (track_children mixedTrack)))"
    "map gi_Enabled (t_GeneratorItem fcpTrack)
         = map (\<lambda>c. Some (clip_enabled c))
             (filter isGeneratorClip (clipsOf (track_children mixedTrack)))"
    by blast+
  then have "t_Enabled fcpTrack = Some True"
    "map ci_Enabled (t_ClipItem fcpTrack) = [Some False, Some True]"
    "map gi_Enabled (t_GeneratorItem fcpTrack) = [Some True]"
    by (simp_all add: mixedTrack_flags)
       (simp_all add: mixedTrack_def videoTrack_def modelClip_def flaggedSlugClip_def)
  with t have track: "\<exists>fcpTrack. Encoder_convertTrack ?env mixedTrack rate24 = Inr fcpTrack
         \<and> t_Enabled fcpTrack = Some True
         \<and> map ci_Enabled (t_ClipItem fcpTrack) = [Some False, Some True]
         \<and> map gi_Enabled (t_GeneratorItem fcpTrack) = [Some True]"
    by (intro exI conjI)
  have omitted: "ci_Enabled ?item = None"
    by (simp add: plainClipItem_def)
  obtain clip where clip: "Decoder_convertClipItem ?item rate24 = Inr (ClipChild clip)"
    "source_range clip \<noteq> None"
    by (simp add: Decoder_convertClipItem_def plainClipItem_def Let_def)
  then have "\<not> isl (Clip_Duration clip)"
    by (auto simp: Clip_Duration_def)
  then obtain ci where ci: "Encoder_convertClip ?env clip rate24 0 = Inr ci"
    using convertClip_returns [of ?env clip rate24 0] by blast
  with enabled_always_written [where item = ?item and sequenceRate = rate24 and clip = clip
      and env = ?env and rate = rate24 and pos = 0 and ci = ci] omitted clip(1)
  have "ci_Enabled ci = Some True"
    by blast
  with clip(1) ci have round: "\<exists>clip ci. Decoder_convertClipItem ?item rate24 = Inr (ClipChild clip)
         \<and> Encoder_convertClip ?env clip rate24 0 = Inr ci
         \<and> ci_Enabled ci = Some True"
    by (intro exI conjI)
  show ?thesis
    using mixedTrack_ranges omitted track round by (intro conjI)
qed

end
